theory Spec2Isabelle
  imports Complex_Main
begin

section \<open>JavaScript values, exceptions and string helpers\<close>

text \<open>
  Strings are byte strings (UTF-8); for ASCII text a byte is also one UTF-16 code unit,
  which is what the lengths and indices of the source count.

  A filter value is one of the shapes the declared option types of \<open>icepanel.ts\<close> allow:
  \<open>undefined\<close>, \<open>null\<close>, a string or boolean, an array of those, or a record of
  labels.
\<close>

datatype scalar = Str string | Bool bool

fun toString :: "scalar \<Rightarrow> string" where
  "toString (Str s) = s"
| "toString (Bool b) = (if b then ''true'' else ''false'')"

datatype jsvalue = Undefined | Null | Scalar scalar | Array "scalar list"
  | Object "(string \<times> scalar) list"

text \<open>Every value thrown in the source is an \<open>Error\<close> object; the handlers read its \<open>message\<close>.\<close>

datatype exn = Error (message: string) | TypeError (message: string)
  | SyntaxError (message: string)

text \<open>Decimal rendering of a number inside a template literal.\<close>

fun string_of_nat :: "nat \<Rightarrow> string" where
  "string_of_nat n = (if n < 10 then [''0123456789'' ! n]
     else string_of_nat (n div 10) @ [''0123456789'' ! (n mod 10)])"

declare string_of_nat.simps [simp del]

text \<open>\<open>Array.prototype.join\<close>.\<close>

fun join :: "string \<Rightarrow> string list \<Rightarrow> string" where
  "join sep [] = []"
| "join sep [x] = x"
| "join sep (x # y # ys) = x @ sep @ join sep (y # ys)"

definition typeof_object :: "jsvalue \<Rightarrow> bool" where
  "typeof_object v =
     (case v of Null \<Rightarrow> True | Array _ \<Rightarrow> True | Object _ \<Rightarrow> True | _ \<Rightarrow> False)"

definition isArray :: "jsvalue \<Rightarrow> bool" where
  "isArray v = (case v of Array _ \<Rightarrow> True | _ \<Rightarrow> False)"

text \<open>The global function \<open>String(value)\<close>.\<close>

fun String_of :: "jsvalue \<Rightarrow> string" where
  "String_of Undefined = ''undefined''"
| "String_of Null = ''null''"
| "String_of (Scalar s) = toString s"
| "String_of (Array items) = join '','' (map toString items)"
| "String_of (Object m) = ''[object Object]''"

text \<open>
  \<open>Object.entries\<close>: it throws on \<open>null\<close> and \<open>undefined\<close>, enumerates the indices of
  an array or a string, and yields nothing for a boolean.
\<close>

fun Object_entries :: "jsvalue \<Rightarrow> exn + (string \<times> scalar) list" where
  "Object_entries Undefined = Inl (TypeError ''Cannot convert undefined or null to object'')"
| "Object_entries Null = Inl (TypeError ''Cannot convert undefined or null to object'')"
| "Object_entries (Scalar (Str s)) =
     Inr (zip (map string_of_nat [0..<length s]) (map (\<lambda>c. Str [c]) s))"
| "Object_entries (Scalar (Bool b)) = Inr []"
| "Object_entries (Array items) = Inr (zip (map string_of_nat [0..<length items]) items)"
| "Object_entries (Object m) = Inr m"


section \<open>Filter encoder (icepanel.ts)\<close>

text \<open>
  A \<open>URLSearchParams\<close> object is its list of name-value pairs; \<open>append\<close> adds one pair
  at the end. A filter description is the list of the own entries of the filter object, in
  property order, as \<open>Object.entries\<close> enumerates them.
\<close>

type_synonym params = "(string \<times> string) list"

type_synonym filter_description = "(string \<times> jsvalue) list"

definition URLSearchParams_append :: "params \<Rightarrow> string \<Rightarrow> string \<Rightarrow> params" where
  "URLSearchParams_append ps nm v = ps @ [(nm, v)]"

text \<open>
  The callback of \<open>Object.entries(filter).forEach\<close> in \<open>getModelObjects\<close> and
  \<open>getModelConnections\<close>. An array item and a label value reach \<open>append\<close> as they are
  and are converted to a string there.
\<close>

definition getModelObjects_entry :: "params \<Rightarrow> string \<times> jsvalue \<Rightarrow> exn + params" where
  "getModelObjects_entry ps e = (case e of (key, val) \<Rightarrow>
     if val \<noteq> Undefined then
       if key = ''labels'' \<and> typeof_object val then
         (case Object_entries val of
            Inl err \<Rightarrow> Inl err
          | Inr entries \<Rightarrow> Inr (foldl (\<lambda>acc (labelKey, labelValue).
              URLSearchParams_append acc (''filter[labels]['' @ labelKey @ '']'')
                (toString labelValue)) ps entries))
       else if isArray val then
         (case val of
            Array items \<Rightarrow> Inr (foldl (\<lambda>acc item.
              URLSearchParams_append acc (''filter['' @ key @ ''][]'') (toString item)) ps items)
          | _ \<Rightarrow> Inr ps)
       else if val = Null then
         Inr (URLSearchParams_append ps (''filter['' @ key @ '']'') ''null'')
       else
         Inr (URLSearchParams_append ps (''filter['' @ key @ '']'') (String_of val))
     else Inr ps)"

text \<open>
  The callback in \<open>getCatalogTechnologies\<close> and \<open>getOrganizationTechnologies\<close>: the same
  without the labels branch.
\<close>

definition getCatalogTechnologies_entry :: "params \<Rightarrow> string \<times> jsvalue \<Rightarrow> exn + params" where
  "getCatalogTechnologies_entry ps e = (case e of (key, val) \<Rightarrow>
     if val \<noteq> Undefined then
       if isArray val then
         (case val of
            Array items \<Rightarrow> Inr (foldl (\<lambda>acc item.
              URLSearchParams_append acc (''filter['' @ key @ ''][]'') (toString item)) ps items)
          | _ \<Rightarrow> Inr ps)
       else if val = Null then
         Inr (URLSearchParams_append ps (''filter['' @ key @ '']'') ''null'')
       else
         Inr (URLSearchParams_append ps (''filter['' @ key @ '']'') (String_of val))
     else Inr ps)"

text \<open>\<open>forEach\<close> over the entries; an exception thrown by the callback ends the loop.\<close>

fun forEach_entries :: "(params \<Rightarrow> string \<times> jsvalue \<Rightarrow> exn + params)
    \<Rightarrow> filter_description \<Rightarrow> params \<Rightarrow> exn + params" where
  "forEach_entries f [] ps = Inr ps"
| "forEach_entries f (e # es) ps =
     (case f ps e of Inl err \<Rightarrow> Inl err | Inr ps' \<Rightarrow> forEach_entries f es ps')"

text \<open>
  The parameters built from \<open>options.filter\<close>: \<open>None\<close> is an absent filter, for which the
  \<open>if (options.filter)\<close> guard leaves the parameters empty.
\<close>

definition getModelObjects_params :: "filter_description option \<Rightarrow> exn + params" where
  "getModelObjects_params options_filter =
     (case options_filter of
        None \<Rightarrow> Inr []
      | Some filt \<Rightarrow> forEach_entries getModelObjects_entry filt [])"

definition getCatalogTechnologies_params :: "filter_description option \<Rightarrow> exn + params" where
  "getCatalogTechnologies_params options_filter =
     (case options_filter of
        None \<Rightarrow> Inr []
      | Some filt \<Rightarrow> forEach_entries getCatalogTechnologies_entry filt [])"

text \<open>
  \<open>URLSearchParams.prototype.toString\<close>, the application/x-www-form-urlencoded serializer
  of the URL standard: a space becomes \<open>+\<close>, ASCII letters, digits and \<open>*-._\<close> stay, every
  other byte becomes \<open>%XX\<close>; pairs are joined by \<open>&\<close>.
\<close>

definition unreserved :: "char \<Rightarrow> bool" where
  "unreserved c =
     (c \<in> set ''ABCDEFGHIJKLMNOPQRSTUVWXYZabcdefghijklmnopqrstuvwxyz0123456789*-._'')"

definition hex_digit :: "nat \<Rightarrow> char" where
  "hex_digit d = ''0123456789ABCDEF'' ! d"

definition urlencode_byte :: "char \<Rightarrow> string" where
  "urlencode_byte c =
     (if c = CHR '' '' then ''+''
      else if unreserved c then [c]
      else [CHR ''%'', hex_digit (of_char c div 16), hex_digit (of_char c mod 16)])"

definition urlencode :: "string \<Rightarrow> string" where
  "urlencode s = concat (map urlencode_byte s)"

definition URLSearchParams_toString :: "params \<Rightarrow> string" where
  "URLSearchParams_toString ps =
     join ''&'' (map (\<lambda>(nm, v). urlencode nm @ ''='' @ urlencode v) ps)"


section \<open>Transport client (icepanel.ts)\<close>

text \<open>
  The process configuration read from the environment at start-up.
\<close>

record env =
  API_BASE_URL :: string
  API_KEY :: string
  ORGANIZATION_ID :: string
  BASE_PATH :: string

text \<open>
  The data of a diagram update, as \<open>updateDiagram\<close> declares it. It is the only request
  body of the operations modelled here; the request carries it as the value handed to
  \<open>JSON.stringify\<close>.
\<close>

record DiagramData =
  name :: "string option"
  description :: "string option"
  viewType :: "string option"
  rootObjectId :: "string option"
  objectIds :: "string list option"

record RequestInit =
  http_method :: "string option"
  body :: "DiagramData option"

record request =
  url :: string
  headers :: "(string \<times> string) list"
  init :: RequestInit

record response =
  status :: nat
  statusText :: string
  bodyText :: string

text \<open>\<open>response.ok\<close> of the Fetch standard: the status is in the range 200 to 299.\<close>

definition ok :: "response \<Rightarrow> bool" where
  "ok r = (200 \<le> response.status r \<and> response.status r \<le> 299)"

text \<open>
  The records of \<open>types.ts\<close>, with the fields the modelled code reads. A string field that
  the code tests for truthiness is present when it is non-empty; \<open>external\<close> is compared
  with \<open>undefined\<close>, so it is optional. A technology is kept as its \<open>name\<close>.
\<close>

record ModelObject =
  id :: string
  name :: string
  description :: string
  type :: string
  external :: "bool option"
  status :: string
  handleId :: string
  parentId :: string
  childIds :: "string list"
  teamIds :: "string list"
  technologies :: "(string \<times> string) list"

record Team =
  id :: string
  name :: string
  userIds :: "string list"

record ModelConnection =
  id :: string
  name :: string
  originId :: string
  targetId :: string

record Diagram =
  id :: string
  name :: string
  objectIds :: "string list option"

record FuseOptions =
  keys :: "string list"
  threshold :: real

record 'a FuseResult =
  item :: 'a
  refIndex :: nat

text \<open>
  What the code takes from outside the repository, as parameters: the remote server
  (\<open>fetch\<close>, whose answer may depend on the requests issued before), \<open>response.json()\<close>,
  \<open>JSON.stringify(value, null, 2)\<close>, the search of the fuse.js library, and the reading of
  a parsed body at the type it is cast to (\<open>as Promise<ModelObjectsResponse>\<close> and the
  like): \<open>dot_modelObjects j\<close> is \<open>j.modelObjects\<close>. The type \<open>'j\<close> is the type of parsed
  JSON values. The code does not validate a response, and neither does the model: a body
  is read at its declared type, except for the \<open>diagram\<close> of a diagram response and its
  \<open>objectIds\<close>, whose presence the code tests.
\<close>

record 'j runtime =
  fetch :: "request list \<Rightarrow> request \<Rightarrow> exn + response"
  json :: "response \<Rightarrow> exn + 'j"
  JSON_stringify :: "'j \<Rightarrow> string"
  Fuse_search :: "FuseOptions \<Rightarrow> ModelObject list \<Rightarrow> string \<Rightarrow> ModelObject FuseResult list"
  dot_modelObjects :: "'j \<Rightarrow> ModelObject list"
  dot_modelObject :: "'j \<Rightarrow> ModelObject"
  dot_teams :: "'j \<Rightarrow> Team list"
  dot_modelConnections :: "'j \<Rightarrow> ModelConnection list"
  dot_diagram :: "'j \<Rightarrow> Diagram option"

text \<open>
  An asynchronous computation: it starts from the list of the requests issued so far and
  ends with a value or a thrown exception, and with the extended list.
\<close>

type_synonym 'a io = "request list \<Rightarrow> (exn + 'a) \<times> request list"

definition return :: "'a \<Rightarrow> 'a io" where
  "return x hist = (Inr x, hist)"

definition throw :: "exn \<Rightarrow> 'a io" where
  "throw e hist = (Inl e, hist)"

definition await :: "'a io \<Rightarrow> ('a \<Rightarrow> 'b io) \<Rightarrow> 'b io" where
  "await m k hist = (case m hist of (Inl e, hist') \<Rightarrow> (Inl e, hist') | (Inr x, hist') \<Rightarrow> k x hist')"

definition try_catch :: "'a io \<Rightarrow> (exn \<Rightarrow> 'a io) \<Rightarrow> 'a io" where
  "try_catch m h hist =
     (case m hist of (Inl e, hist') \<Rightarrow> h e hist' | (Inr x, hist') \<Rightarrow> (Inr x, hist'))"

definition no_options :: RequestInit where
  "no_options = \<lparr>http_method = None, body = None\<rparr>"

text \<open>
  The request \<open>apiRequest\<close> hands to \<open>fetch\<close>: the fixed headers, then the caller's
  options (no caller sets headers of its own).
\<close>

definition build_request :: "env \<Rightarrow> string \<Rightarrow> RequestInit \<Rightarrow> request" where
  "build_request E path options =
     \<lparr>url = API_BASE_URL E @ path,
      headers = [(''Accept'', ''application/json''),
                 (''Content-Type'', ''application/json''),
                 (''Authorization'', ''ApiKey '' @ API_KEY E)],
      init = options\<rparr>"

definition apiRequest :: "env \<Rightarrow> 'j runtime \<Rightarrow> string \<Rightarrow> RequestInit \<Rightarrow> 'j io" where
  "apiRequest E R path options hist =
     (let req = build_request E path options
      in case fetch R hist req of
           Inl err \<Rightarrow> (Inl err, hist @ [req])
         | Inr response \<Rightarrow>
             if \<not> ok response then
               (Inl (Error (''IcePanel API error: ''
                  @ string_of_nat (response.status response) @ '' ''
                  @ statusText response @ '' - '' @ bodyText response)), hist @ [req])
             else (json R response, hist @ [req]))"

definition getLandscapes :: "env \<Rightarrow> 'j runtime \<Rightarrow> string \<Rightarrow> 'j io" where
  "getLandscapes E R organizationId =
     apiRequest E R (''/organizations/'' @ organizationId @ ''/landscapes'') no_options"

definition getTeams :: "env \<Rightarrow> 'j runtime \<Rightarrow> string \<Rightarrow> 'j io" where
  "getTeams E R organizationId =
     apiRequest E R (''/organizations/'' @ organizationId @ ''/teams'') no_options"

definition query_suffix :: "params \<Rightarrow> string" where
  "query_suffix ps =
     (let queryString = URLSearchParams_toString ps
      in if queryString \<noteq> [] then ''?'' @ queryString else [])"

definition getModelObjects ::
    "env \<Rightarrow> 'j runtime \<Rightarrow> string \<Rightarrow> string \<Rightarrow> filter_description option \<Rightarrow> 'j io" where
  "getModelObjects E R landscapeId versionId options_filter =
     (case getModelObjects_params options_filter of
        Inl err \<Rightarrow> throw err
      | Inr ps \<Rightarrow> apiRequest E R (''/landscapes/'' @ landscapeId @ ''/versions/'' @ versionId
          @ ''/model/objects'' @ query_suffix ps) no_options)"

definition getModelObject :: "env \<Rightarrow> 'j runtime \<Rightarrow> string \<Rightarrow> string \<Rightarrow> string \<Rightarrow> 'j io" where
  "getModelObject E R landscapeId modelObjectId versionId =
     apiRequest E R (''/landscapes/'' @ landscapeId @ ''/versions/'' @ versionId
       @ ''/model/objects/'' @ modelObjectId) no_options"

definition getModelConnections ::
    "env \<Rightarrow> 'j runtime \<Rightarrow> string \<Rightarrow> string \<Rightarrow> filter_description option \<Rightarrow> 'j io" where
  "getModelConnections E R landscapeId versionId options_filter =
     (case getModelObjects_params options_filter of
        Inl err \<Rightarrow> throw err
      | Inr ps \<Rightarrow> apiRequest E R (''/landscapes/'' @ landscapeId @ ''/versions/'' @ versionId
          @ ''/model/connections'' @ query_suffix ps) no_options)"

definition getDiagram :: "env \<Rightarrow> 'j runtime \<Rightarrow> string \<Rightarrow> string \<Rightarrow> string \<Rightarrow> 'j io" where
  "getDiagram E R landscapeId diagramId versionId =
     apiRequest E R (''/landscapes/'' @ landscapeId @ ''/versions/'' @ versionId
       @ ''/diagrams/'' @ diagramId) no_options"

text \<open>
  \<open>updateDiagram\<close> sends a copy of the data and returns the response read as a
  \<open>DiagramResponse\<close>, after giving its diagram an empty \<open>objectIds\<close> when it has none.
\<close>

definition updateDiagram ::
    "env \<Rightarrow> 'j runtime \<Rightarrow> string \<Rightarrow> string \<Rightarrow> DiagramData \<Rightarrow> string \<Rightarrow> Diagram option io" where
  "updateDiagram E R landscapeId diagramId data versionId =
     await (apiRequest E R (''/landscapes/'' @ landscapeId @ ''/versions/'' @ versionId
              @ ''/diagrams/'' @ diagramId) \<lparr>http_method = Some ''PATCH'', body = Some data\<rparr>)
       (\<lambda>resp. return (case dot_diagram R resp of
            None \<Rightarrow> None
          | Some d \<Rightarrow> (case Diagram.objectIds d of
               None \<Rightarrow> Some (d\<lparr>Diagram.objectIds := Some []\<rparr>)
             | Some _ \<Rightarrow> Some d)))"


section \<open>Rendering (format.ts)\<close>

definition modelObjectUrl :: "env \<Rightarrow> string \<Rightarrow> string \<Rightarrow> string" where
  "modelObjectUrl E landscapeId modelObjectHandle =
     BASE_PATH E @ ''/landscapes/'' @ landscapeId
       @ ''/versions/latest/model/objects?object_tab=details&object='' @ modelObjectHandle"

text \<open>
  \<open>s.lastIndexOf(c, fromIndex)\<close> for a one-character search string: the greatest index
  not above \<open>fromIndex\<close> that holds \<open>c\<close>, or \<open>-1\<close>.
\<close>

definition lastIndexOf :: "string \<Rightarrow> char \<Rightarrow> nat \<Rightarrow> int" where
  "lastIndexOf s c fromIndex =
     (case filter (\<lambda>i. s ! i = c) (rev [0..<min (Suc fromIndex) (length s)]) of
        [] \<Rightarrow> - 1
      | i # _ \<Rightarrow> int i)"

definition formatModelObjectListItem :: "string \<Rightarrow> ModelObject \<Rightarrow> string" where
  "formatModelObjectListItem landscapeId modelObject =
     (let maxLength = 150;
          truncatedDescription =
            (if length (ModelObject.description modelObject) > maxLength then
               (let lastSpaceIndex =
                      lastIndexOf (ModelObject.description modelObject) CHR '' '' maxLength
                in take (if lastSpaceIndex > 0 then nat lastSpaceIndex else maxLength)
                     (ModelObject.description modelObject))
             else ModelObject.description modelObject)
      in (if ModelObject.name modelObject \<noteq> []
          then ''# '' @ ModelObject.name modelObject @ ''\<newline>'' else [])
       @ (if ModelObject.id modelObject \<noteq> []
          then ''- ID: '' @ ModelObject.id modelObject @ ''\<newline>'' else [])
       @ (if ModelObject.name modelObject \<noteq> []
          then ''- Name: '' @ ModelObject.name modelObject @ ''\<newline>'' else [])
       @ (if ModelObject.description modelObject \<noteq> []
          then ''- Description: \<newline>'' @ truncatedDescription @ ''...\<newline>'' else [])
       @ (if ModelObject.type modelObject \<noteq> []
          then ''- Type: '' @ ModelObject.type modelObject @ ''\<newline>'' else [])
       @ (case ModelObject.external modelObject of
            None \<Rightarrow> []
          | Some b \<Rightarrow> ''- External: '' @ toString (Bool b) @ ''\<newline>'')
       @ (if ModelObject.status modelObject \<noteq> []
          then ''- Status: '' @ ModelObject.status modelObject @ ''\<newline>'' else []))"

definition formatModelObjectRelatedItem :: "ModelObject \<Rightarrow> string" where
  "formatModelObjectRelatedItem modelObject =
     (if ModelObject.name modelObject \<noteq> []
      then ''##### '' @ ModelObject.name modelObject @ ''\<newline>'' else [])
     @ (if ModelObject.id modelObject \<noteq> []
        then ''- ID: '' @ ModelObject.id modelObject @ ''\<newline>'' else [])
     @ (if ModelObject.name modelObject \<noteq> []
        then ''- Name: '' @ ModelObject.name modelObject @ ''\<newline>'' else [])
     @ (if ModelObject.type modelObject \<noteq> []
        then ''- Type: '' @ ModelObject.type modelObject @ ''\<newline>'' else [])
     @ (if ModelObject.status modelObject \<noteq> []
        then ''- Status: '' @ ModelObject.status modelObject @ ''\<newline>'' else [])"

definition formatModelObjectItem ::
    "env \<Rightarrow> string \<Rightarrow> ModelObject \<Rightarrow> Team list \<Rightarrow> ModelObject option
      \<Rightarrow> ModelObject list option \<Rightarrow> string" where
  "formatModelObjectItem E landscapeId modelObject teams parentObject childObjects =
     (if ModelObject.name modelObject \<noteq> []
      then ''# '' @ ModelObject.name modelObject @ ''\<newline>'' else [])
     @ (if ModelObject.id modelObject \<noteq> []
        then ''- ID: '' @ ModelObject.id modelObject @ ''\<newline>'' else [])
     @ (if ModelObject.name modelObject \<noteq> []
        then ''- Name: '' @ ModelObject.name modelObject @ ''\<newline>'' else [])
     @ ''- View in IcePanel: '' @ modelObjectUrl E landscapeId (handleId modelObject)
     @ ''\<newline>''
     @ (if ModelObject.description modelObject \<noteq> []
        then ''- Description:\<newline>```\<newline>'' @ ModelObject.description modelObject
          @ ''\<newline>```\<newline>'' else [])
     @ (if ModelObject.type modelObject \<noteq> []
        then ''- Type: '' @ ModelObject.type modelObject @ ''\<newline>'' else [])
     @ (case ModelObject.external modelObject of
          None \<Rightarrow> []
        | Some b \<Rightarrow> ''- External: '' @ toString (Bool b) @ ''\<newline>'')
     @ (if ModelObject.status modelObject \<noteq> []
        then ''- Status: '' @ ModelObject.status modelObject @ ''\<newline>'' else [])
     @ (if length (map snd (technologies modelObject)) > 0
        then ''- Technologies: '' @ join '', '' (map snd (technologies modelObject))
          @ ''\<newline>'' else [])
     @ (if length (teamIds modelObject) > 0
        then ''- Teams: '' @ join '', '' (filter (\<lambda>it. it \<noteq> [])
            (map (\<lambda>teamId. case find (\<lambda>t. Team.id t = teamId) teams of
                               None \<Rightarrow> [] | Some t \<Rightarrow> Team.name t) (teamIds modelObject)))
          @ ''\<newline>'' else [])
     @ (case parentObject of
          None \<Rightarrow> []
        | Some p \<Rightarrow> ''### Parent Object\<newline>\<newline>'' @ formatModelObjectRelatedItem p
            @ ''\<newline>\<newline>'')
     @ (case childObjects of
          None \<Rightarrow> []
        | Some cs \<Rightarrow> ''### Child Objects\<newline>\<newline>''
            @ join ''\<newline>\<newline>'' (map formatModelObjectRelatedItem cs))"

text \<open>
  \<open>formatConnections\<close>. The callback of each \<open>map\<close> returns the line of a connection and
  pushes the connected object, when it is found, onto \<open>referencedModels\<close>: here it
  returns both. The callback of the outgoing section is applied to \<open>incomingConnections\<close>,
  as it is in the source.
\<close>

definition incomingLine ::
    "ModelObject \<Rightarrow> ModelObject list \<Rightarrow> ModelConnection \<Rightarrow> string \<times> ModelObject option" where
  "incomingLine modelObject modelObjects c =
     (case find (\<lambda>ob. ModelObject.id ob = originId c) modelObjects of
        None \<Rightarrow> ([], None)
      | Some connectedModel \<Rightarrow>
          (ModelObject.name connectedModel @ '' ('' @ ModelObject.type connectedModel
             @ '') -['' @ ModelConnection.name c @ '']-> '' @ ModelObject.name modelObject
             @ '' ('' @ ModelObject.type modelObject @ '')'', Some connectedModel))"

definition outgoingLine ::
    "ModelObject \<Rightarrow> ModelObject list \<Rightarrow> ModelConnection \<Rightarrow> string \<times> ModelObject option" where
  "outgoingLine modelObject modelObjects c =
     (case find (\<lambda>ob. ModelObject.id ob = targetId c) modelObjects of
        None \<Rightarrow> ([], None)
      | Some connectedModel \<Rightarrow>
          (ModelObject.name modelObject @ '' ('' @ ModelObject.type modelObject
             @ '') -['' @ ModelConnection.name c @ '']-> '' @ ModelObject.name connectedModel
             @ '' ('' @ ModelObject.type connectedModel @ '')'', Some connectedModel))"

definition formatConnections ::
    "ModelObject \<Rightarrow> ModelConnection list \<Rightarrow> ModelConnection list \<Rightarrow> ModelObject list
      \<Rightarrow> string" where
  "formatConnections modelObject incomingConnections outgoingConnections modelObjects =
     (let incomingResults =
            (if length incomingConnections \<noteq> 0
             then map (incomingLine modelObject modelObjects) incomingConnections else []);
          outgoingResults =
            (if length outgoingConnections \<noteq> 0
             then map (outgoingLine modelObject modelObjects) incomingConnections else []);
          referencedModels =
            List.map_filter snd incomingResults @ List.map_filter snd outgoingResults
      in ''# '' @ ModelObject.name modelObject @ '' - Connections\<newline>\<newline>''
       @ (if length incomingConnections = 0 \<and> length outgoingConnections = 0
          then ''No connections found.\<newline>'' else [])
       @ (if length incomingConnections \<noteq> 0
          then ''### Incoming connections\<newline>''
            @ join ''\<newline>'' (map fst incomingResults) else [])
       @ (if length outgoingConnections \<noteq> 0
          then ''### Outgoing connections\<newline>''
            @ join ''\<newline>'' (map fst outgoingResults) else [])
       @ (if length referencedModels \<noteq> 0
          then ''### Referenced Model Objects''
            @ join ''\<newline>'' (map formatModelObjectRelatedItem referencedModels) else []))"


section \<open>Tool handlers (main.ts)\<close>

text \<open>
  A handler returns the \<open>content\<close> array of its result, a list of text blocks. Its
  arguments have passed the schema of the tool. Diagnostic logging is left out.
\<close>

datatype content = Text string

datatype 'a one_or_many = One 'a | Many "'a list"

text \<open>
  The arguments of \<open>getModelObjects\<close> other than \<open>landscapeId\<close>, which the handler
  collects in \<open>filters\<close>. \<open>external\<close> has a default and is always present; \<open>parentId\<close> may
  be absent (\<open>None\<close>), \<open>null\<close> (\<open>Some None\<close>) or a string.
\<close>

record filters =
  domainId :: "string one_or_many option"
  external :: bool
  name :: "string option"
  parentId :: "string option option"
  status :: "string one_or_many option"
  type :: "string one_or_many option"
  technologyId :: "string one_or_many option"
  teamId :: "string one_or_many option"
  search :: "string option"

definition optional_string :: "string option \<Rightarrow> jsvalue" where
  "optional_string v = (case v of None \<Rightarrow> Undefined | Some s \<Rightarrow> Scalar (Str s))"

definition optional_union :: "string one_or_many option \<Rightarrow> jsvalue" where
  "optional_union v =
     (case v of
        None \<Rightarrow> Undefined
      | Some (One s) \<Rightarrow> Scalar (Str s)
      | Some (Many xs) \<Rightarrow> Array (map Str xs))"

text \<open>
  The entries of the \<open>filters\<close> object, in the order of the schema; an absent optional
  argument is an entry holding \<open>undefined\<close>, which the encoder skips like a missing one.
\<close>

definition filters_entries :: "filters \<Rightarrow> filter_description" where
  "filters_entries f =
     [(''domainId'', optional_union (filters.domainId f)),
      (''external'', Scalar (Bool (filters.external f))),
      (''name'', optional_string (filters.name f)),
      (''parentId'', (case filters.parentId f of
                        None \<Rightarrow> Undefined
                      | Some None \<Rightarrow> Null
                      | Some (Some s) \<Rightarrow> Scalar (Str s))),
      (''status'', optional_union (filters.status f)),
      (''type'', optional_union (filters.type f)),
      (''technologyId'', optional_union (filters.technologyId f)),
      (''teamId'', optional_union (filters.teamId f)),
      (''search'', optional_string (filters.search f))]"

text \<open>
  The \<open>catch\<close> clause of a handler: one text block, the tool's prefix followed by the
  message of the error. Each handler below is its \<open>try\<close> block, named \<open>_try\<close>, under
  this clause.
\<close>

definition error_result :: "string \<Rightarrow> exn \<Rightarrow> content list io" where
  "error_result prefix error = return [Text (prefix @ message error)]"

definition getLandscapes_try :: "env \<Rightarrow> 'j runtime \<Rightarrow> content list io" where
  "getLandscapes_try E R =
     await (getLandscapes E R (ORGANIZATION_ID E)) (\<lambda>landscapes.
       return [Text (JSON_stringify R landscapes)])"

definition getLandscapes_tool :: "env \<Rightarrow> 'j runtime \<Rightarrow> content list io" where
  "getLandscapes_tool E R =
     try_catch (getLandscapes_try E R) (error_result ''Error: '')"

text \<open>
  The search step of the \<open>getModelObjects\<close> handler: the fuzzy search runs only when the
  search string is truthy, that is present and not empty.
\<close>

definition searchModelObjects ::
    "'j runtime \<Rightarrow> string option \<Rightarrow> ModelObject list \<Rightarrow> ModelObject list" where
  "searchModelObjects R filters_search modelObjects =
     (case filters_search of
        None \<Rightarrow> modelObjects
      | Some s \<Rightarrow>
          if s \<noteq> [] then
            map item (Fuse_search R \<lparr>keys = [''name'', ''description''], threshold = 0.3\<rparr>
              modelObjects s)
          else modelObjects)"

definition getModelObjects_try ::
    "env \<Rightarrow> 'j runtime \<Rightarrow> string \<Rightarrow> filters \<Rightarrow> content list io" where
  "getModelObjects_try E R landscapeId f =
     (await (getModelObjects E R landscapeId ''latest'' (Some (filters_entries f)))
          (\<lambda>result.
             return (map (\<lambda>ob. Text (formatModelObjectListItem landscapeId ob))
               (searchModelObjects R (filters.search f) (dot_modelObjects R result)))))"

definition getModelObjects_tool ::
    "env \<Rightarrow> 'j runtime \<Rightarrow> string \<Rightarrow> filters \<Rightarrow> content list io" where
  "getModelObjects_tool E R landscapeId f =
     try_catch (getModelObjects_try E R landscapeId f) (error_result ''Error: '')"

definition getModelObject_try ::
    "env \<Rightarrow> 'j runtime \<Rightarrow> string \<Rightarrow> string \<Rightarrow> bool \<Rightarrow> content list io" where
  "getModelObject_try E R landscapeId modelObjectId includeHierarchicalInfo =
     (await (getModelObject E R landscapeId modelObjectId ''latest'') (\<lambda>result.
        await (getTeams E R (ORGANIZATION_ID E)) (\<lambda>teamResult.
          let modelObject = dot_modelObject R result in
          await
            (if includeHierarchicalInfo then
               await (getModelObjects E R landscapeId ''latest'' None) (\<lambda>listResult.
                 let modelObjectList = dot_modelObjects R listResult in
                 return
                   (if ModelObject.parentId modelObject \<noteq> []
                       \<and> ModelObject.parentId modelObject \<noteq> ''root''
                    then find (\<lambda>ob. ModelObject.id ob = ModelObject.parentId modelObject)
                           modelObjectList
                    else None,
                    if length (childIds modelObject) > 0
                    then Some (filter (\<lambda>ob. ModelObject.id ob \<in> set (childIds modelObject))
                           modelObjectList)
                    else None))
             else return (None, None))
            (\<lambda>(parentObject, childObjects).
               return [Text (formatModelObjectItem E landscapeId (dot_modelObject R result)
                 (dot_teams R teamResult) parentObject childObjects)]))))"

definition getModelObject_tool ::
    "env \<Rightarrow> 'j runtime \<Rightarrow> string \<Rightarrow> string \<Rightarrow> bool \<Rightarrow> content list io" where
  "getModelObject_tool E R landscapeId modelObjectId includeHierarchicalInfo =
     try_catch (getModelObject_try E R landscapeId modelObjectId includeHierarchicalInfo)
       (error_result ''Error: '')"

definition getModelObjectRelationships_try ::
    "env \<Rightarrow> 'j runtime \<Rightarrow> string \<Rightarrow> string \<Rightarrow> content list io" where
  "getModelObjectRelationships_try E R landscapeId modelObjectId =
     (await (getModelObject E R landscapeId modelObjectId ''latest'') (\<lambda>modelObjectResult.
        await (getModelObjects E R landscapeId ''latest'' None) (\<lambda>modelObjectsResult.
        await (getModelConnections E R landscapeId ''latest''
                 (Some [(''originId'', Scalar (Str modelObjectId))]))
          (\<lambda>outgoingConnectionsResult.
        await (getModelConnections E R landscapeId ''latest''
                 (Some [(''targetId'', Scalar (Str modelObjectId))]))
          (\<lambda>incomingConnectionsResult.
        return [Text (formatConnections
          (dot_modelObject R modelObjectResult)
          (dot_modelConnections R incomingConnectionsResult)
          (dot_modelConnections R outgoingConnectionsResult)
          (dot_modelObjects R modelObjectsResult))])))))"

definition getModelObjectRelationships_tool ::
    "env \<Rightarrow> 'j runtime \<Rightarrow> string \<Rightarrow> string \<Rightarrow> content list io" where
  "getModelObjectRelationships_tool E R landscapeId modelObjectId =
     try_catch (getModelObjectRelationships_try E R landscapeId modelObjectId)
       (error_result ''Error: '')"

text \<open>
  A JavaScript \<open>Set\<close> is the list of its elements in insertion order; adding an element
  that is there already changes nothing. \<open>new Set(xs)\<close> adds the elements of \<open>xs\<close> one by
  one, and \<open>Array.from\<close> lists the set in insertion order.
\<close>

definition Set_add :: "'a list \<Rightarrow> 'a \<Rightarrow> 'a list" where
  "Set_add s x = (if x \<in> set s then s else s @ [x])"

definition new_Set :: "'a list \<Rightarrow> 'a list" where
  "new_Set xs = foldl Set_add [] xs"

definition Array_from :: "'a list \<Rightarrow> 'a list" where
  "Array_from s = s"

text \<open>
  The handler of \<open>addObjectsToDiagram\<close>. Reading \<open>.objectIds\<close> or \<open>.name\<close> of a missing
  \<open>diagram\<close> throws a TypeError, whose message is the engine's.
\<close>

definition addObjectsToDiagram_try ::
    "env \<Rightarrow> 'j runtime \<Rightarrow> string \<Rightarrow> string \<Rightarrow> string list \<Rightarrow> content list io" where
  "addObjectsToDiagram_try E R landscapeId diagramId objectIds_arg =
     (if length objectIds_arg = 0 then
          throw (Error ''objectIds must be a non-empty array of strings'')
        else
          await (getDiagram E R landscapeId diagramId ''latest'') (\<lambda>currentDiagram.
            case dot_diagram R currentDiagram of
              None \<Rightarrow>
                throw (TypeError ''Cannot read properties of undefined (reading objectIds)'')
            | Some d \<Rightarrow>
                let currentObjectIds =
                      (case Diagram.objectIds d of None \<Rightarrow> [] | Some ids \<Rightarrow> ids);
                    updatedObjectIds = Array_from (new_Set (currentObjectIds @ objectIds_arg))
                in await (updateDiagram E R landscapeId diagramId
                            \<lparr>DiagramData.name = None, DiagramData.description = None,
                             DiagramData.viewType = None, DiagramData.rootObjectId = None,
                             DiagramData.objectIds = Some updatedObjectIds\<rparr>
                            ''latest'') (\<lambda>updatedDiagram.
                   await (getDiagram E R landscapeId diagramId ''latest'') (\<lambda>verifiedDiagram.
                     case updatedDiagram of
                       None \<Rightarrow>
                         throw (TypeError ''Cannot read properties of undefined (reading name)'')
                     | Some u \<Rightarrow>
                         return [Text (''Successfully added ''
                           @ string_of_nat (length objectIds_arg)
                           @ '' objects to diagram '' @ [CHR 0x22]
                           @ Diagram.name u @ [CHR 0x22] @ '' (ID: '' @ diagramId
                           @ '').\<newline>The diagram now contains ''
                           @ string_of_nat (length updatedObjectIds) @ '' objects.'')]))))"

definition addObjectsToDiagram_tool ::
    "env \<Rightarrow> 'j runtime \<Rightarrow> string \<Rightarrow> string \<Rightarrow> string list \<Rightarrow> content list io" where
  "addObjectsToDiagram_tool E R landscapeId diagramId objectIds_arg =
     try_catch (addObjectsToDiagram_try E R landscapeId diagramId objectIds_arg)
       (error_result ''Error adding objects to diagram: '')"


section \<open>The merge of object ids, in the words of the specification\<close>

text \<open>
  The list without its duplicates, each element at its first occurrence; and the union of
  two lists of ids: the existing ids first, then the new ids that are not among them.
\<close>

fun first_seen :: "'a list \<Rightarrow> 'a list" where
  "first_seen [] = []"
| "first_seen (x # xs) = x # first_seen (filter (\<lambda>y. y \<noteq> x) xs)"

definition union_first_seen :: "'a list \<Rightarrow> 'a list \<Rightarrow> 'a list" where
  "union_first_seen existing new =
     first_seen existing @ first_seen (filter (\<lambda>x. x \<notin> set existing) new)"


section \<open>Filter descriptions of the declared type, and with scalar values only\<close>

text \<open>
  The filter types declared in \<open>icepanel.ts\<close> give \<open>labels\<close> a record of strings
  (\<open>labels?: Record<string, string>\<close>): in a description of the declared type the key
  \<open>labels\<close> holds a record or is unset. No caller passes anything else there.
\<close>

definition declared_filter_type :: "filter_description \<Rightarrow> bool" where
  "declared_filter_type filt =
     list_all (\<lambda>(k, v).
       if k = ''labels''
       then (case v of Undefined \<Rightarrow> True | Object _ \<Rightarrow> True | _ \<Rightarrow> False)
       else True) filt"

text \<open>
  A description with scalar values only holds no list and no record: each value is a string,
  a boolean, an explicit \<open>null\<close>, or unset.
\<close>

definition scalar_values_only :: "filter_description \<Rightarrow> bool" where
  "scalar_values_only filt =
     list_all (\<lambda>(k, v).
       case v of Undefined \<Rightarrow> True | Null \<Rightarrow> True | Scalar _ \<Rightarrow> True | _ \<Rightarrow> False) filt"


section \<open>Example configuration, servers and records\<close>

definition example_env :: env where
  "example_env =
     \<lparr>API_BASE_URL = ''https://api.icepanel.io/v1'', API_KEY = ''key'',
      ORGANIZATION_ID = ''org'', BASE_PATH = ''https://app.icepanel.io''\<rparr>"

definition example_object :: "string \<Rightarrow> string \<Rightarrow> ModelObject" where
  "example_object i n =
     \<lparr>ModelObject.id = i, ModelObject.name = n, ModelObject.description = [],
      ModelObject.type = ''system'', ModelObject.external = None, ModelObject.status = [],
      handleId = i, ModelObject.parentId = ''root'', childIds = [], teamIds = [],
      technologies = []\<rparr>"

text \<open>
  A server that answers every request with status 200, and a runtime that reads every body
  as the same records; parsed JSON is just the body text.
\<close>

definition example_runtime :: "string runtime" where
  "example_runtime =
     \<lparr>fetch = (\<lambda>hist req. Inr \<lparr>response.status = 200, statusText = ''OK'', bodyText = ''{}''\<rparr>),
      json = (\<lambda>r. Inr (bodyText r)),
      JSON_stringify = (\<lambda>j. j),
      Fuse_search = (\<lambda>opts xs q. []),
      dot_modelObjects = (\<lambda>j. [example_object ''B'' ''Billing'']),
      dot_modelObject = (\<lambda>j. example_object ''A'' ''Accounts''),
      dot_teams = (\<lambda>j. []),
      dot_modelConnections = (\<lambda>j. []),
      dot_diagram = (\<lambda>j. Some \<lparr>Diagram.id = ''D'', Diagram.name = ''Overview'',
                                 Diagram.objectIds = Some [''a'', ''b'']\<rparr>)\<rparr>"

text \<open>The same runtime behind a server that answers every request with status 404.\<close>

definition example_runtime_404 :: "string runtime" where
  "example_runtime_404 =
     example_runtime\<lparr>fetch := (\<lambda>hist req.
        Inr \<lparr>response.status = 404, statusText = ''Not Found'', bodyText = ''no such landscape''\<rparr>)\<rparr>"

definition example_connection :: ModelConnection where
  "example_connection =
     \<lparr>ModelConnection.id = ''c1'', ModelConnection.name = ''calls'', originId = ''A'',
      targetId = ''B''\<rparr>"

definition example_filters :: filters where
  "example_filters =
     \<lparr>filters.domainId = None, filters.external = False, filters.name = None,
      filters.parentId = None, filters.status = None,
      filters.type = Some (Many [''system'', ''actor'']), technologyId = None, teamId = None,
      search = Some ''pay''\<rparr>"


section \<open>The filter encoder emits what the entries say\<close>

lemma foldl_snoc:
  "foldl (\<lambda>acc x. acc @ [F x]) ps xs = ps @ map F xs"
  by (induction xs arbitrary: ps) simp_all

lemma foldl_snoc_pair:
  "foldl (\<lambda>acc (a, b). acc @ [F a b]) ps xs = ps @ map (\<lambda>(a, b). F a b) xs"
  by (induction xs arbitrary: ps) auto

lemma getModelObjects_entry_acc:
  "getModelObjects_entry ps e =
     (case getModelObjects_entry [] e of Inl err \<Rightarrow> Inl err | Inr new \<Rightarrow> Inr (ps @ new))"
proof (cases e)
  case (Pair key val)
  show ?thesis
    unfolding Pair getModelObjects_entry_def
    by (cases val)
       (simp_all add: foldl_snoc foldl_snoc_pair URLSearchParams_append_def
          isArray_def typeof_object_def split: sum.splits)
qed

lemma getCatalogTechnologies_entry_acc:
  "getCatalogTechnologies_entry ps e =
     (case getCatalogTechnologies_entry [] e of Inl err \<Rightarrow> Inl err | Inr new \<Rightarrow> Inr (ps @ new))"
proof (cases e)
  case (Pair key val)
  show ?thesis
    unfolding Pair getCatalogTechnologies_entry_def
    by (cases val)
       (simp_all add: foldl_snoc URLSearchParams_append_def isArray_def)
qed

lemma forEach_entries_acc:
  assumes f: "\<And>ps e. f ps e = (case f [] e of Inl err \<Rightarrow> Inl err | Inr new \<Rightarrow> Inr (ps @ new))"
  shows "forEach_entries f es ps =
     (case forEach_entries f es [] of Inl err \<Rightarrow> Inl err | Inr new \<Rightarrow> Inr (ps @ new))"
proof (induction es arbitrary: ps)
  case Nil
  show ?case by simp
next
  case (Cons e es)
  show ?case
  proof (cases "f [] e")
    case (Inl err)
    then show ?thesis using f [of ps e] by simp
  next
    case (Inr new)
    have 1: "f ps e = Inr (ps @ new)" using f [of ps e] Inr by simp
    have 2: "forEach_entries f es (ps @ new) =
        (case forEach_entries f es [] of Inl err \<Rightarrow> Inl err | Inr n \<Rightarrow> Inr ((ps @ new) @ n))"
      by (rule Cons.IH)
    have 3: "forEach_entries f es new =
        (case forEach_entries f es [] of Inl err \<Rightarrow> Inl err | Inr n \<Rightarrow> Inr (new @ n))"
      by (rule Cons.IH)
    show ?thesis using Inr 1 2 3 by (simp split: sum.splits)
  qed
qed

lemma forEach_entries_append:
  "forEach_entries f (xs @ ys) ps =
     (case forEach_entries f xs ps of Inl err \<Rightarrow> Inl err | Inr ps' \<Rightarrow> forEach_entries f ys ps')"
  by (induction xs arbitrary: ps) (auto split: sum.splits)

lemma forEach_entries_split:
  assumes f: "\<And>ps e. f ps e = (case f [] e of Inl err \<Rightarrow> Inl err | Inr new \<Rightarrow> Inr (ps @ new))"
    and e: "f [] e = Inr new"
  shows "forEach_entries f (pre @ e # post) [] =
     (case forEach_entries f pre [] of
        Inl err \<Rightarrow> Inl err
      | Inr before \<Rightarrow>
          (case forEach_entries f post [] of
             Inl err \<Rightarrow> Inl err
           | Inr after \<Rightarrow> Inr (before @ new @ after)))"
proof (cases "forEach_entries f pre []")
  case (Inl err)
  then show ?thesis by (simp add: forEach_entries_append)
next
  case (Inr before)
  have "f before e = Inr (before @ new)" using f [of before e] e by simp
  moreover have "forEach_entries f post (before @ new) =
      (case forEach_entries f post [] of Inl err \<Rightarrow> Inl err | Inr n \<Rightarrow> Inr ((before @ new) @ n))"
    by (rule forEach_entries_acc [OF f])
  ultimately show ?thesis using Inr by (simp add: forEach_entries_append split: sum.splits)
qed

lemma getModelObjects_entry_Array:
  "k \<noteq> ''labels'' \<Longrightarrow> getModelObjects_entry [] (k, Array items) =
     Inr (map (\<lambda>item. (''filter['' @ k @ ''][]'', toString item)) items)"
  by (simp add: getModelObjects_entry_def isArray_def foldl_snoc URLSearchParams_append_def)

lemma getCatalogTechnologies_entry_Array:
  "getCatalogTechnologies_entry [] (k, Array items) =
     Inr (map (\<lambda>item. (''filter['' @ k @ ''][]'', toString item)) items)"
  by (simp add: getCatalogTechnologies_entry_def isArray_def foldl_snoc URLSearchParams_append_def)

lemma getModelObjects_params_split:
  assumes "getModelObjects_entry [] e = Inr new"
  shows "getModelObjects_params (Some (pre @ e # post)) =
     (case getModelObjects_params (Some pre) of
        Inl err \<Rightarrow> Inl err
      | Inr before \<Rightarrow>
          (case getModelObjects_params (Some post) of
             Inl err \<Rightarrow> Inl err
           | Inr after \<Rightarrow> Inr (before @ new @ after)))"
  unfolding getModelObjects_params_def option.case
  using getModelObjects_entry_acc assms
  by (rule forEach_entries_split [where f = getModelObjects_entry])

lemma getCatalogTechnologies_params_split:
  assumes "getCatalogTechnologies_entry [] e = Inr new"
  shows "getCatalogTechnologies_params (Some (pre @ e # post)) =
     (case getCatalogTechnologies_params (Some pre) of
        Inl err \<Rightarrow> Inl err
      | Inr before \<Rightarrow>
          (case getCatalogTechnologies_params (Some post) of
             Inl err \<Rightarrow> Inl err
           | Inr after \<Rightarrow> Inr (before @ new @ after)))"
  unfolding getCatalogTechnologies_params_def option.case
  using getCatalogTechnologies_entry_acc assms
  by (rule forEach_entries_split [where f = getCatalogTechnologies_entry])

lemma forEach_entries_succeeds:
  assumes f: "\<And>ps e. f ps e = (case f [] e of Inl err \<Rightarrow> Inl err | Inr new \<Rightarrow> Inr (ps @ new))"
  shows "\<forall>e \<in> set filt. \<exists>new. f [] e = Inr new \<Longrightarrow> \<exists>ps. forEach_entries f filt [] = Inr ps"
proof (induction filt)
  case Nil
  show ?case by simp
next
  case (Cons e filt)
  from Cons.prems obtain new where new: "f [] e = Inr new" by auto
  from Cons obtain ps where "forEach_entries f filt [] = Inr ps" by auto
  then show ?case
    using forEach_entries_acc [where f = f and es = filt and ps = new, OF f] new by simp
qed

lemma getModelObjects_entry_no_labels:
  "k \<noteq> ''labels'' \<Longrightarrow> \<exists>new. getModelObjects_entry [] (k, v) = Inr new"
  by (cases v) (simp_all add: getModelObjects_entry_def isArray_def)

lemma getModelObjects_entry_Undefined:
  "getModelObjects_entry [] (k, Undefined) = Inr []"
  by (simp add: getModelObjects_entry_def)

lemma getModelObjects_entry_labels_Object:
  "\<exists>new. getModelObjects_entry [] (''labels'', Object m) = Inr new"
  by (simp add: getModelObjects_entry_def typeof_object_def)

lemma declared_filter_type_labels:
  assumes "declared_filter_type filt" and "(''labels'', v) \<in> set filt"
  shows "v = Undefined \<or> (\<exists>m. v = Object m)"
proof -
  from assms have "case v of Undefined \<Rightarrow> True | Object _ \<Rightarrow> True | _ \<Rightarrow> False"
    unfolding declared_filter_type_def list_all_iff by fastforce
  then show ?thesis by (cases v) simp_all
qed

lemma scalar_values_only_values:
  assumes "scalar_values_only filt" and "(k, v) \<in> set filt"
  shows "v = Undefined \<or> v = Null \<or> (\<exists>s. v = Scalar s)"
proof -
  from assms have
    "case v of Undefined \<Rightarrow> True | Null \<Rightarrow> True | Scalar _ \<Rightarrow> True | _ \<Rightarrow> False"
    unfolding scalar_values_only_def list_all_iff by fastforce
  then show ?thesis by (cases v) simp_all
qed

lemma declared_filter_type_params:
  assumes "declared_filter_type filt"
  shows "\<exists>ps. getModelObjects_params (Some filt) = Inr ps"
proof -
  have "\<exists>new. getModelObjects_entry [] e = Inr new" if "e \<in> set filt" for e
  proof -
    obtain k v where e: "e = (k, v)" by (cases e)
    show ?thesis
    proof (cases "k = ''labels''")
      case False
      then show ?thesis using getModelObjects_entry_no_labels by (simp add: e)
    next
      case True
      with assms that have "v = Undefined \<or> (\<exists>m. v = Object m)"
        using declared_filter_type_labels [of filt v] by (simp add: e)
      then show ?thesis
        using getModelObjects_entry_Undefined getModelObjects_entry_labels_Object
        by (auto simp: e True)
    qed
  qed
  then show ?thesis
    unfolding getModelObjects_params_def option.case
    using forEach_entries_succeeds [where f = getModelObjects_entry,
        OF getModelObjects_entry_acc]
    by blast
qed

lemma getCatalogTechnologies_params_succeeds:
  "\<exists>ps. getCatalogTechnologies_params (Some filt) = Inr ps"
proof -
  have "\<exists>new. getCatalogTechnologies_entry [] e = Inr new" for e
  proof -
    obtain k v where e: "e = (k, v)" by (cases e)
    show ?thesis
      by (cases v) (simp_all add: e getCatalogTechnologies_entry_def isArray_def)
  qed
  then show ?thesis
    unfolding getCatalogTechnologies_params_def option.case
    using forEach_entries_succeeds [where f = getCatalogTechnologies_entry,
        OF getCatalogTechnologies_entry_acc]
    by blast
qed

lemma declared_filter_type_split:
  assumes "declared_filter_type (pre @ (k, v) # post)"
  shows "declared_filter_type pre" and "declared_filter_type post"
    and "k = ''labels'' \<Longrightarrow> v = Undefined \<or> (\<exists>m. v = Object m)"
proof -
  from assms show "declared_filter_type pre" and "declared_filter_type post"
    by (simp_all add: declared_filter_type_def)
  show "v = Undefined \<or> (\<exists>m. v = Object m)" if "k = ''labels''"
    using declared_filter_type_labels [OF assms, of v] that by simp
qed

text \<open>
  Claim C1. In a filter description of the declared type, a list of length N under a key
  \<open>k\<close> makes the encoder emit exactly N pairs with key \<open>filter[k][]\<close>, one per element and in
  list order, each with the string form of its element; they stand between the pairs of the
  entries before the list and the pairs of the entries after it. The encoder of the
  technology catalogue has no labels, and there this holds for every description.
\<close>

theorem list_value_pairs:
  "(declared_filter_type (pre @ (k, Array items) # post) \<longrightarrow>
      (\<exists>before after.
         getModelObjects_params (Some pre) = Inr before
       \<and> getModelObjects_params (Some post) = Inr after
       \<and> getModelObjects_params (Some (pre @ (k, Array items) # post)) =
           Inr (before @ map (\<lambda>item. (''filter['' @ k @ ''][]'', toString item)) items
             @ after)))
   \<and> (\<exists>before after.
         getCatalogTechnologies_params (Some pre) = Inr before
       \<and> getCatalogTechnologies_params (Some post) = Inr after
       \<and> getCatalogTechnologies_params (Some (pre @ (k, Array items) # post)) =
           Inr (before @ map (\<lambda>item. (''filter['' @ k @ ''][]'', toString item)) items
             @ after))"
proof (intro conjI impI)
  assume declared: "declared_filter_type (pre @ (k, Array items) # post)"
  have k: "k \<noteq> ''labels''"
    using declared_filter_type_split(3) [OF declared] by auto
  obtain before where before: "getModelObjects_params (Some pre) = Inr before"
    using declared_filter_type_params [OF declared_filter_type_split(1) [OF declared]] ..
  obtain after where after: "getModelObjects_params (Some post) = Inr after"
    using declared_filter_type_params [OF declared_filter_type_split(2) [OF declared]] ..
  show "\<exists>before after.
         getModelObjects_params (Some pre) = Inr before
       \<and> getModelObjects_params (Some post) = Inr after
       \<and> getModelObjects_params (Some (pre @ (k, Array items) # post)) =
           Inr (before @ map (\<lambda>item. (''filter['' @ k @ ''][]'', toString item)) items
             @ after)"
    using getModelObjects_params_split [OF getModelObjects_entry_Array [OF k, of items],
        where pre = pre and post = post]
    by (simp add: before after)
next
  obtain before where before: "getCatalogTechnologies_params (Some pre) = Inr before"
    using getCatalogTechnologies_params_succeeds [of pre] ..
  obtain after where after: "getCatalogTechnologies_params (Some post) = Inr after"
    using getCatalogTechnologies_params_succeeds [of post] ..
  show "\<exists>before after.
         getCatalogTechnologies_params (Some pre) = Inr before
       \<and> getCatalogTechnologies_params (Some post) = Inr after
       \<and> getCatalogTechnologies_params (Some (pre @ (k, Array items) # post)) =
           Inr (before @ map (\<lambda>item. (''filter['' @ k @ ''][]'', toString item)) items
             @ after)"
    using getCatalogTechnologies_params_split
        [OF getCatalogTechnologies_entry_Array [of k items], where pre = pre and post = post]
    by (simp add: before after)
qed

text \<open>The scenario of the specification, and one for the catalogue.\<close>

theorem list_value_pairs_witness:
  "declared_filter_type [(''labels'', Object [(''tier'', Str ''gold'')]),
       (''type'', Array [Str ''system'', Str ''actor'']), (''external'', Scalar (Bool False))]
   \<and> getModelObjects_params (Some [(''labels'', Object [(''tier'', Str ''gold'')]),
       (''type'', Array [Str ''system'', Str ''actor'']),
       (''external'', Scalar (Bool False))]) =
     Inr [(''filter[labels][tier]'', ''gold''), (''filter[type][]'', ''system''),
          (''filter[type][]'', ''actor''), (''filter[external]'', ''false'')]
   \<and> getCatalogTechnologies_params (Some [(''provider'', Null),
       (''type'', Array [Str ''language'']), (''status'', Scalar (Str ''approved''))]) =
     Inr [(''filter[provider]'', ''null''), (''filter[type][]'', ''language''),
          (''filter[status]'', ''approved'')]"
proof -
  have h: "declared_filter_type ([(''labels'', Object [(''tier'', Str ''gold'')])]
       @ (''type'', Array [Str ''system'', Str ''actor''])
       # [(''external'', Scalar (Bool False))])"
    by (simp add: declared_filter_type_def)
  show ?thesis
    using h
      list_value_pairs [of "[(''labels'', Object [(''tier'', Str ''gold'')])]" "''type''"
        "[Str ''system'', Str ''actor'']" "[(''external'', Scalar (Bool False))]"]
      list_value_pairs [of "[(''provider'', Null)]" "''type''" "[Str ''language'']"
        "[(''status'', Scalar (Str ''approved''))]"]
    by (auto simp: getModelObjects_params_def getCatalogTechnologies_params_def
        getModelObjects_entry_def getCatalogTechnologies_entry_def isArray_def
        typeof_object_def URLSearchParams_append_def)
qed

lemma getModelObjects_entry_Null:
  "k \<noteq> ''labels'' \<Longrightarrow>
     getModelObjects_entry [] (k, Null) = Inr [(''filter['' @ k @ '']'', ''null'')]"
  by (simp add: getModelObjects_entry_def isArray_def URLSearchParams_append_def)

lemma getCatalogTechnologies_entry_Null:
  "getCatalogTechnologies_entry [] (k, Null) = Inr [(''filter['' @ k @ '']'', ''null'')]"
  by (simp add: getCatalogTechnologies_entry_def isArray_def URLSearchParams_append_def)

text \<open>
  Claim C2. In a filter description of the declared type, an explicit \<open>null\<close> under a key
  \<open>k\<close> makes the encoder emit exactly one pair for \<open>k\<close>, with key \<open>filter[k]\<close> and the
  value \<open>null\<close> as a string, between the pairs of the entries before it and the pairs of the
  entries after it. For the encoder of the technology catalogue this holds for every
  description.
\<close>

theorem null_value_pair:
  "(declared_filter_type (pre @ (k, Null) # post) \<longrightarrow>
      (\<exists>before after.
         getModelObjects_params (Some pre) = Inr before
       \<and> getModelObjects_params (Some post) = Inr after
       \<and> getModelObjects_params (Some (pre @ (k, Null) # post)) =
           Inr (before @ [(''filter['' @ k @ '']'', ''null'')] @ after)))
   \<and> (\<exists>before after.
         getCatalogTechnologies_params (Some pre) = Inr before
       \<and> getCatalogTechnologies_params (Some post) = Inr after
       \<and> getCatalogTechnologies_params (Some (pre @ (k, Null) # post)) =
           Inr (before @ [(''filter['' @ k @ '']'', ''null'')] @ after))"
proof (intro conjI impI)
  assume declared: "declared_filter_type (pre @ (k, Null) # post)"
  have k: "k \<noteq> ''labels''"
    using declared_filter_type_split(3) [OF declared] by auto
  obtain before where before: "getModelObjects_params (Some pre) = Inr before"
    using declared_filter_type_params [OF declared_filter_type_split(1) [OF declared]] ..
  obtain after where after: "getModelObjects_params (Some post) = Inr after"
    using declared_filter_type_params [OF declared_filter_type_split(2) [OF declared]] ..
  show "\<exists>before after.
         getModelObjects_params (Some pre) = Inr before
       \<and> getModelObjects_params (Some post) = Inr after
       \<and> getModelObjects_params (Some (pre @ (k, Null) # post)) =
           Inr (before @ [(''filter['' @ k @ '']'', ''null'')] @ after)"
    using getModelObjects_params_split [OF getModelObjects_entry_Null [OF k],
        where pre = pre and post = post]
    by (simp add: before after)
next
  obtain before where before: "getCatalogTechnologies_params (Some pre) = Inr before"
    using getCatalogTechnologies_params_succeeds [of pre] ..
  obtain after where after: "getCatalogTechnologies_params (Some post) = Inr after"
    using getCatalogTechnologies_params_succeeds [of post] ..
  show "\<exists>before after.
         getCatalogTechnologies_params (Some pre) = Inr before
       \<and> getCatalogTechnologies_params (Some post) = Inr after
       \<and> getCatalogTechnologies_params (Some (pre @ (k, Null) # post)) =
           Inr (before @ [(''filter['' @ k @ '']'', ''null'')] @ after)"
    using getCatalogTechnologies_params_split
        [OF getCatalogTechnologies_entry_Null [of k], where pre = pre and post = post]
    by (simp add: before after)
qed

text \<open>
  What the \<open>getModelObjects\<close> tool sends for \<open>parentId: null\<close>, and a catalogue filter with
  no provider.
\<close>

theorem null_value_pair_witness:
  "declared_filter_type [(''external'', Scalar (Bool False)), (''parentId'', Null)]
   \<and> getModelObjects_params (Some [(''external'', Scalar (Bool False)),
       (''parentId'', Null)]) =
     Inr [(''filter[external]'', ''false''), (''filter[parentId]'', ''null'')]
   \<and> getCatalogTechnologies_params (Some [(''provider'', Null),
       (''status'', Scalar (Str ''approved''))]) =
     Inr [(''filter[provider]'', ''null''), (''filter[status]'', ''approved'')]"
proof -
  have h: "declared_filter_type ([(''external'', Scalar (Bool False))]
       @ (''parentId'', Null) # [])"
    by (simp add: declared_filter_type_def)
  show ?thesis
    using h
      null_value_pair [of "[(''external'', Scalar (Bool False))]" "''parentId''" "[]"]
      null_value_pair [of "[]" "''provider''" "[(''status'', Scalar (Str ''approved''))]"]
    by (auto simp: getModelObjects_params_def getCatalogTechnologies_params_def
        getModelObjects_entry_def getCatalogTechnologies_entry_def isArray_def
        typeof_object_def URLSearchParams_append_def)
qed

lemma getModelObjects_entry_scalar:
  "getModelObjects_entry [] (k, Scalar s) = Inr [(''filter['' @ k @ '']'', toString s)]"
  by (simp add: getModelObjects_entry_def isArray_def typeof_object_def
      URLSearchParams_append_def)

lemma getCatalogTechnologies_entry_scalar:
  "getCatalogTechnologies_entry [] (k, Scalar s) = Inr [(''filter['' @ k @ '']'', toString s)]"
  by (simp add: getCatalogTechnologies_entry_def isArray_def URLSearchParams_append_def)

lemma getCatalogTechnologies_entry_Undefined:
  "getCatalogTechnologies_entry [] (k, Undefined) = Inr []"
  by (simp add: getCatalogTechnologies_entry_def)

lemma forEach_entries_Cons:
  assumes f: "\<And>ps e. f ps e = (case f [] e of Inl err \<Rightarrow> Inl err | Inr new \<Rightarrow> Inr (ps @ new))"
    and e: "f [] e = Inr new"
  shows "forEach_entries f (e # es) [] =
     (case forEach_entries f es [] of Inl err \<Rightarrow> Inl err | Inr rest \<Rightarrow> Inr (new @ rest))"
  using forEach_entries_acc [where f = f and es = es and ps = new, OF f] e by simp

lemma one_pair_per_set_key:
  assumes f: "\<And>ps e. f ps e = (case f [] e of Inl err \<Rightarrow> Inl err | Inr new \<Rightarrow> Inr (ps @ new))"
    and u: "\<And>k. f [] (k, Undefined) = Inr []"
  shows "\<forall>(k, v) \<in> set filt. v \<noteq> Undefined \<longrightarrow>
         f [] (k, v) = Inr [(''filter['' @ k @ '']'', String_of v)] \<Longrightarrow>
     forEach_entries f filt [] =
       Inr (map (\<lambda>(k, v). (''filter['' @ k @ '']'', String_of v))
             (filter (\<lambda>(k, v). v \<noteq> Undefined) filt))"
proof (induction filt)
  case Nil
  show ?case by simp
next
  case (Cons e filt)
  obtain k v where e: "e = (k, v)" by (cases e)
  from Cons.prems have IH: "forEach_entries f filt [] =
       Inr (map (\<lambda>(k, v). (''filter['' @ k @ '']'', String_of v))
             (filter (\<lambda>(k, v). v \<noteq> Undefined) filt))"
    by (intro Cons.IH) auto
  show ?case
  proof (cases "v = Undefined")
    case True
    then show ?thesis
      using forEach_entries_Cons [where f = f and es = filt, OF f u [of k]] IH by (simp add: e)
  next
    case False
    with Cons.prems have "f [] (k, v) = Inr [(''filter['' @ k @ '']'', String_of v)]"
      by (simp add: e)
    then show ?thesis
      using forEach_entries_Cons [where f = f and es = filt and e = "(k, v)", OF f] IH False
      by (simp add: e)
  qed
qed

text \<open>
  Claim C3. For a filter description with scalar values only, that is one whose values are
  strings, booleans, explicit nulls or unset, the encoder emits one pair
  \<open>filter[k] = String(v)\<close> for each key that is not unset, in the order of the keys, and
  nothing for an unset key: the number of pairs is the number of keys that are not unset.
  It holds for the encoder of \<open>getModelObjects\<close> and \<open>getModelConnections\<close> on every such
  description of the declared type, and for the encoder of the technology catalogue on
  every such description.
\<close>

theorem scalar_values_pair_count:
  assumes "scalar_values_only filt"
  shows "(declared_filter_type filt \<longrightarrow>
          (\<exists>ps. getModelObjects_params (Some filt) = Inr ps
            \<and> length ps = length (filter (\<lambda>(k, v). v \<noteq> Undefined) filt)
            \<and> ps = map (\<lambda>(k, v). (''filter['' @ k @ '']'', String_of v))
                     (filter (\<lambda>(k, v). v \<noteq> Undefined) filt)))
       \<and> (\<exists>ps. getCatalogTechnologies_params (Some filt) = Inr ps
            \<and> length ps = length (filter (\<lambda>(k, v). v \<noteq> Undefined) filt)
            \<and> ps = map (\<lambda>(k, v). (''filter['' @ k @ '']'', String_of v))
                     (filter (\<lambda>(k, v). v \<noteq> Undefined) filt))"
proof -
  have vals: "v = Undefined \<or> v = Null \<or> (\<exists>s. v = Scalar s)" if "(k, v) \<in> set filt" for k v
    using assms that by (rule scalar_values_only_values)
  have "getModelObjects_params (Some filt) =
      Inr (map (\<lambda>(k, v). (''filter['' @ k @ '']'', String_of v))
            (filter (\<lambda>(k, v). v \<noteq> Undefined) filt))"
    if declared: "declared_filter_type filt"
  proof -
    have "getModelObjects_entry [] (k, v) = Inr [(''filter['' @ k @ '']'', String_of v)]"
      if "(k, v) \<in> set filt" "v \<noteq> Undefined" for k v
    proof -
      from vals [OF that(1)] that(2) consider "v = Null" | s where "v = Scalar s" by blast
      then show ?thesis
      proof cases
        case 1
        with declared that(1) have "k \<noteq> ''labels''"
          using declared_filter_type_labels [of filt v] by auto
        then show ?thesis using 1 by (simp add: getModelObjects_entry_Null)
      next
        case 2
        then show ?thesis by (simp add: getModelObjects_entry_scalar)
      qed
    qed
    then have "\<forall>(k, v) \<in> set filt. v \<noteq> Undefined \<longrightarrow>
        getModelObjects_entry [] (k, v) = Inr [(''filter['' @ k @ '']'', String_of v)]"
      by blast
    then show ?thesis
      unfolding getModelObjects_params_def option.case
      using one_pair_per_set_key [where f = getModelObjects_entry,
          OF getModelObjects_entry_acc getModelObjects_entry_Undefined]
      by blast
  qed
  moreover have "getCatalogTechnologies_params (Some filt) =
      Inr (map (\<lambda>(k, v). (''filter['' @ k @ '']'', String_of v))
            (filter (\<lambda>(k, v). v \<noteq> Undefined) filt))"
  proof -
    have "getCatalogTechnologies_entry [] (k, v) = Inr [(''filter['' @ k @ '']'', String_of v)]"
      if "(k, v) \<in> set filt" "v \<noteq> Undefined" for k v
      using vals [OF that(1)] that(2)
      by (auto simp: getCatalogTechnologies_entry_Null getCatalogTechnologies_entry_scalar)
    then have "\<forall>(k, v) \<in> set filt. v \<noteq> Undefined \<longrightarrow>
        getCatalogTechnologies_entry [] (k, v) = Inr [(''filter['' @ k @ '']'', String_of v)]"
      by blast
    then show ?thesis
      unfolding getCatalogTechnologies_params_def option.case
      using one_pair_per_set_key [where f = getCatalogTechnologies_entry,
          OF getCatalogTechnologies_entry_acc getCatalogTechnologies_entry_Undefined]
      by blast
  qed
  ultimately show ?thesis by simp
qed

text \<open>
  What the \<open>getModelObjects\<close> tool sends for \<open>parentId: null\<close> and a name, and a catalogue
  filter with no provider: two keys that are not unset, two pairs.
\<close>

theorem scalar_values_pair_count_witness:
  "scalar_values_only [(''external'', Scalar (Bool False)), (''name'', Undefined),
       (''parentId'', Null)]
   \<and> declared_filter_type [(''external'', Scalar (Bool False)), (''name'', Undefined),
       (''parentId'', Null)]
   \<and> getModelObjects_params (Some [(''external'', Scalar (Bool False)), (''name'', Undefined),
       (''parentId'', Null)]) =
     Inr [(''filter[external]'', ''false''), (''filter[parentId]'', ''null'')]
   \<and> getCatalogTechnologies_params (Some [(''external'', Scalar (Bool False)),
       (''name'', Undefined), (''parentId'', Null)]) =
     Inr [(''filter[external]'', ''false''), (''filter[parentId]'', ''null'')]
   \<and> length [(''filter[external]'', ''false''), (''filter[parentId]'', ''null'')] = (2::nat)"
proof -
  have h: "scalar_values_only [(''external'', Scalar (Bool False)), (''name'', Undefined),
       (''parentId'', Null)]"
    by (simp add: scalar_values_only_def)
  have d: "declared_filter_type [(''external'', Scalar (Bool False)), (''name'', Undefined),
       (''parentId'', Null)]"
    by (simp add: declared_filter_type_def)
  show ?thesis
    using h d scalar_values_pair_count [OF h] by auto
qed


section \<open>Computations, the transport client and the catch clause\<close>

lemma apiRequest_requests:
  "snd (apiRequest E R path options hist) = hist @ [build_request E path options]"
  by (simp add: apiRequest_def Let_def split: sum.splits)

lemma apiRequest_not_ok:
  assumes "fetch R hist (build_request E path options) = Inr resp"
    and "\<not> ok resp"
  shows "apiRequest E R path options hist =
     (Inl (Error (''IcePanel API error: '' @ string_of_nat (response.status resp) @ '' ''
        @ statusText resp @ '' - '' @ bodyText resp)), hist @ [build_request E path options])"
  using assms by (simp add: apiRequest_def Let_def)

lemma await_requests:
  "snd (await m k hist) =
     (case fst (m hist) of Inl e \<Rightarrow> snd (m hist) | Inr x \<Rightarrow> snd (k x (snd (m hist))))"
  by (simp add: await_def split: prod.splits sum.splits)

lemma await_result:
  "fst (await m k hist) =
     (case fst (m hist) of Inl e \<Rightarrow> Inl e | Inr x \<Rightarrow> fst (k x (snd (m hist))))"
  by (simp add: await_def split: prod.splits sum.splits)

lemma try_catch_error_result:
  "try_catch m (error_result prefix) hist =
     (case fst (m hist) of
        Inl e \<Rightarrow> (Inr [Text (prefix @ message e)], snd (m hist))
      | Inr c \<Rightarrow> (Inr c, snd (m hist)))"
  by (simp add: try_catch_def error_result_def return_def split: prod.splits sum.splits)


section \<open>The search step\<close>

text \<open>
  Claim C4. When the search string is absent or empty, the search step of the
  \<open>getModelObjects\<close> handler returns the collection it was given: the same records in the
  same order.
\<close>

theorem searchModelObjects_identity:
  "filters_search = None \<or> filters_search = Some [] \<Longrightarrow>
     searchModelObjects R filters_search modelObjects = modelObjects"
  by (auto simp: searchModelObjects_def)

theorem searchModelObjects_identity_witness:
  "searchModelObjects example_runtime None [example_object ''B'' ''Billing'',
       example_object ''A'' ''Accounts''] =
     [example_object ''B'' ''Billing'', example_object ''A'' ''Accounts'']
   \<and> searchModelObjects example_runtime (Some []) [example_object ''B'' ''Billing'',
       example_object ''A'' ''Accounts''] =
     [example_object ''B'' ''Billing'', example_object ''A'' ''Accounts'']"
  using searchModelObjects_identity [of None example_runtime]
    searchModelObjects_identity [of "Some []" example_runtime]
  by simp

text \<open>
  So the handler then renders one block per fetched record, in the order of the response.
\<close>

lemma getModelObjects_tool_no_search:
  assumes "getModelObjects E R landscapeId ''latest'' (Some (filters_entries f)) hist =
      (Inr result, hist')"
    and "filters.search f = None \<or> filters.search f = Some []"
  shows "getModelObjects_tool E R landscapeId f hist =
     (Inr (map (\<lambda>ob. Text (formatModelObjectListItem landscapeId ob))
        (dot_modelObjects R result)), hist')"
  using assms
  by (auto simp: getModelObjects_tool_def getModelObjects_try_def try_catch_def await_def
      return_def searchModelObjects_def)


section \<open>The calls of the getModelObject handler\<close>

lemma getModelObjects_params_None: "getModelObjects_params None = Inr []"
  by (simp add: getModelObjects_params_def)

lemma query_suffix_Nil: "query_suffix [] = []"
  by (simp add: query_suffix_def URLSearchParams_toString_def)

lemma getModelObject_tool_requests:
  "snd (getModelObject_tool E R landscapeId modelObjectId includeHierarchicalInfo hist) =
     (let object_request = build_request E (''/landscapes/'' @ landscapeId
            @ ''/versions/latest/model/objects/'' @ modelObjectId) no_options;
          teams_request = build_request E (''/organizations/'' @ ORGANIZATION_ID E
            @ ''/teams'') no_options;
          collection_request = build_request E (''/landscapes/'' @ landscapeId
            @ ''/versions/latest/model/objects'') no_options
      in case fst (getModelObject E R landscapeId modelObjectId ''latest'' hist) of
           Inl e \<Rightarrow> hist @ [object_request]
         | Inr result \<Rightarrow>
             (case fst (getTeams E R (ORGANIZATION_ID E) (hist @ [object_request])) of
                Inl e \<Rightarrow> hist @ [object_request, teams_request]
              | Inr teamResult \<Rightarrow>
                  if includeHierarchicalInfo
                  then hist @ [object_request, teams_request, collection_request]
                  else hist @ [object_request, teams_request]))"
proof -
  have 1: "snd (getModelObject E R landscapeId modelObjectId ''latest'' hist) =
      hist @ [build_request E (''/landscapes/'' @ landscapeId
            @ ''/versions/latest/model/objects/'' @ modelObjectId) no_options]"
    by (simp add: getModelObject_def apiRequest_requests)
  have 2: "\<And>h. snd (getTeams E R (ORGANIZATION_ID E) h) =
      h @ [build_request E (''/organizations/'' @ ORGANIZATION_ID E @ ''/teams'') no_options]"
    by (simp add: getTeams_def apiRequest_requests)
  have 3: "\<And>h. snd (getModelObjects E R landscapeId ''latest'' None h) =
      h @ [build_request E (''/landscapes/'' @ landscapeId
            @ ''/versions/latest/model/objects'') no_options]"
    by (simp add: getModelObjects_def getModelObjects_params_None query_suffix_Nil
        apiRequest_requests)
  show ?thesis
    unfolding getModelObject_tool_def getModelObject_try_def
    by (simp add: try_catch_error_result await_requests await_result 1 2 3 Let_def return_def
        split: sum.splits prod.splits)
qed


text \<open>
  Claim C5, as amended. The \<open>getModelObject\<close> handler issues its calls in the order: the
  object, the teams, and then, when hierarchical information is requested, the full object
  collection. With enrichment it issues exactly these 3 calls and without it exactly the
  first 2, provided the object call and the teams call succeed; a call that fails is the
  last one issued.
\<close>

theorem getModelObject_calls:
  "snd (getModelObject_tool E R landscapeId modelObjectId includeHierarchicalInfo hist) =
     (let object_request = build_request E (''/landscapes/'' @ landscapeId
            @ ''/versions/latest/model/objects/'' @ modelObjectId) no_options;
          teams_request = build_request E (''/organizations/'' @ ORGANIZATION_ID E
            @ ''/teams'') no_options;
          collection_request = build_request E (''/landscapes/'' @ landscapeId
            @ ''/versions/latest/model/objects'') no_options
      in case fst (getModelObject E R landscapeId modelObjectId ''latest'' hist) of
           Inl e \<Rightarrow> hist @ [object_request]
         | Inr result \<Rightarrow>
             (case fst (getTeams E R (ORGANIZATION_ID E) (hist @ [object_request])) of
                Inl e \<Rightarrow> hist @ [object_request, teams_request]
              | Inr teamResult \<Rightarrow>
                  if includeHierarchicalInfo
                  then hist @ [object_request, teams_request, collection_request]
                  else hist @ [object_request, teams_request]))"
  by (rule getModelObject_tool_requests)

lemma example_env_fields:
  "API_BASE_URL example_env = ''https://api.icepanel.io/v1''"
  "API_KEY example_env = ''key''"
  "ORGANIZATION_ID example_env = ''org''"
  "BASE_PATH example_env = ''https://app.icepanel.io''"
  by (simp_all add: example_env_def)

lemma example_apiRequest:
  "apiRequest example_env example_runtime path options hist =
     (Inr ''{}'', hist @ [build_request example_env path options])"
  by (simp add: apiRequest_def example_runtime_def ok_def)

lemma example_apiRequest_404:
  "apiRequest example_env example_runtime_404 path options hist =
     (Inl (Error ''IcePanel API error: 404 Not Found - no such landscape''),
      hist @ [build_request example_env path options])"
  by (simp add: apiRequest_def example_runtime_404_def example_runtime_def ok_def
      string_of_nat.simps)

theorem getModelObject_calls_witness:
  "map url (snd (getModelObject_tool example_env example_runtime ''L'' ''A'' False [])) =
     [''https://api.icepanel.io/v1/landscapes/L/versions/latest/model/objects/A'',
      ''https://api.icepanel.io/v1/organizations/org/teams'']
   \<and> map url (snd (getModelObject_tool example_env example_runtime_404 ''L'' ''A'' True [])) =
     [''https://api.icepanel.io/v1/landscapes/L/versions/latest/model/objects/A'']"
  using getModelObject_calls [of example_env example_runtime "''L''" "''A''" False "[]"]
    getModelObject_calls [of example_env example_runtime_404 "''L''" "''A''" True "[]"]
  by (simp add: getModelObject_def getTeams_def example_apiRequest example_apiRequest_404
      build_request_def example_env_fields Let_def)

text \<open>
  With enrichment and every call answered, the teams are fetched second and the collection
  third, not the other way round.
\<close>

theorem getModelObject_calls_counterexample:
  "map url (snd (getModelObject_tool example_env example_runtime ''L'' ''A'' True [])) =
     [''https://api.icepanel.io/v1/landscapes/L/versions/latest/model/objects/A'',
      ''https://api.icepanel.io/v1/organizations/org/teams'',
      ''https://api.icepanel.io/v1/landscapes/L/versions/latest/model/objects'']
   \<and> map url (snd (getModelObject_tool example_env example_runtime ''L'' ''A'' True [])) \<noteq>
     [''https://api.icepanel.io/v1/landscapes/L/versions/latest/model/objects/A'',
      ''https://api.icepanel.io/v1/landscapes/L/versions/latest/model/objects'',
      ''https://api.icepanel.io/v1/organizations/org/teams'']"
  using getModelObject_tool_requests [of example_env example_runtime "''L''" "''A''" True "[]"]
  by (simp add: getModelObject_def getTeams_def example_apiRequest
      build_request_def example_env_fields Let_def)

section \<open>The connections rendering\<close>

text \<open>
  Claim C6 asks that the lines of the outgoing section come from the outgoing list. In
  \<open>formatConnections\<close> they come from the incoming list: an object with no incoming and
  one outgoing connection, whose target is among the fetched objects, gets the heading of
  the outgoing section and no line under it.
\<close>

theorem formatConnections_outgoing_from_incoming:
  "formatConnections (example_object ''A'' ''Accounts'') [] [example_connection]
       [example_object ''A'' ''Accounts'', example_object ''B'' ''Billing''] =
     ''# Accounts - Connections\<newline>\<newline>### Outgoing connections\<newline>''"
  by (simp add: formatConnections_def example_object_def example_connection_def
      List.map_filter_simps)

text \<open>
  In general the outgoing list matters only through being empty or not.
\<close>

lemma formatConnections_outgoing_only_by_emptiness:
  "outgoingConnections \<noteq> [] \<Longrightarrow> outgoingConnections' \<noteq> [] \<Longrightarrow>
     formatConnections modelObject incomingConnections outgoingConnections modelObjects =
     formatConnections modelObject incomingConnections outgoingConnections' modelObjects"
  by (simp add: formatConnections_def)


section \<open>A response outside 200 to 299\<close>

text \<open>
  Claim C7. When the server answers with a status outside 200 to 299, \<open>apiRequest\<close>
  throws an error whose message holds the status code, the status text and the body text as
  received; the outcome does not depend on \<open>response.json()\<close>, which is not called. The
  \<open>getModelObjects\<close> handler turns that error into one text block, \<open>Error: \<close> followed by
  the message, and returns it.
\<close>

theorem non_2xx_response_error:
  assumes "fetch R hist (build_request E path options) = Inr resp"
    and "response.status resp < 200 \<or> 299 < response.status resp"
  shows "apiRequest E R path options hist =
       (Inl (Error (''IcePanel API error: '' @ string_of_nat (response.status resp) @ '' ''
          @ statusText resp @ '' - '' @ bodyText resp)),
        hist @ [build_request E path options])
     \<and> apiRequest E (R\<lparr>json := parse\<rparr>) path options hist = apiRequest E R path options hist
     \<and> (options = no_options
          \<and> getModelObjects_params (Some (filters_entries f)) = Inr ps
          \<and> path = ''/landscapes/'' @ landscapeId @ ''/versions/latest/model/objects''
               @ query_suffix ps
        \<longrightarrow> getModelObjects_tool E R landscapeId f hist =
              (Inr [Text (''Error: '' @ ''IcePanel API error: ''
                 @ string_of_nat (response.status resp) @ '' '' @ statusText resp @ '' - ''
                 @ bodyText resp)],
               hist @ [build_request E path options]))"
proof -
  from assms(2) have not_ok: "\<not> ok resp" by (auto simp: ok_def)
  note failed = apiRequest_not_ok [OF assms(1) not_ok]
  have "apiRequest E (R\<lparr>json := parse\<rparr>) path options hist = apiRequest E R path options hist"
    using assms(1) not_ok by (simp add: apiRequest_def Let_def)
  moreover have "getModelObjects_tool E R landscapeId f hist =
      (Inr [Text (''Error: '' @ ''IcePanel API error: ''
         @ string_of_nat (response.status resp) @ '' '' @ statusText resp @ '' - ''
         @ bodyText resp)],
       hist @ [build_request E path options])"
    if "options = no_options" "getModelObjects_params (Some (filters_entries f)) = Inr ps"
      "path = ''/landscapes/'' @ landscapeId @ ''/versions/latest/model/objects''
         @ query_suffix ps"
    using that failed
    by (simp add: getModelObjects_tool_def getModelObjects_try_def getModelObjects_def
        try_catch_error_result await_result await_requests)
  ultimately show ?thesis using failed by blast
qed

lemma example_filters_params:
  "getModelObjects_params (Some (filters_entries example_filters)) =
     Inr [(''filter[external]'', ''false''), (''filter[type][]'', ''system''),
          (''filter[type][]'', ''actor''), (''filter[search]'', ''pay'')]"
  by (simp add: getModelObjects_params_def filters_entries_def example_filters_def
      optional_union_def optional_string_def getModelObjects_entry_def isArray_def
      typeof_object_def URLSearchParams_append_def)

lemma example_query_suffix:
  "query_suffix [(''filter[external]'', ''false''), (''filter[type][]'', ''system''),
          (''filter[type][]'', ''actor''), (''filter[search]'', ''pay'')] =
     ''?filter%5Bexternal%5D=false&filter%5Btype%5D%5B%5D=system&filter%5Btype%5D%5B%5D=actor&filter%5Bsearch%5D=pay''"
  by (simp add: query_suffix_def URLSearchParams_toString_def urlencode_def
      urlencode_byte_def unreserved_def hex_digit_def)

theorem non_2xx_response_error_witness:
  "apiRequest example_env example_runtime_404 ''/organizations/org/landscapes'' no_options [] =
     (Inl (Error ''IcePanel API error: 404 Not Found - no such landscape''),
      [build_request example_env ''/organizations/org/landscapes'' no_options])
   \<and> getModelObjects_tool example_env example_runtime_404 ''L'' example_filters [] =
     (Inr [Text ''Error: IcePanel API error: 404 Not Found - no such landscape''],
      [build_request example_env
         ''/landscapes/L/versions/latest/model/objects?filter%5Bexternal%5D=false&filter%5Btype%5D%5B%5D=system&filter%5Btype%5D%5B%5D=actor&filter%5Bsearch%5D=pay''
         no_options])"
proof -
  let ?resp = "\<lparr>response.status = 404, statusText = ''Not Found'',
    bodyText = ''no such landscape''\<rparr>"
  have h1: "fetch example_runtime_404 [] (build_request example_env path no_options) = Inr ?resp"
    for path
    by (simp add: example_runtime_404_def example_runtime_def)
  have h2: "response.status ?resp < 200 \<or> 299 < response.status ?resp"
    by simp
  show ?thesis
    using non_2xx_response_error [OF h1 h2, of "''/organizations/org/landscapes''"]
      non_2xx_response_error [OF h1 h2, where f = example_filters and landscapeId = "''L''"]
      example_filters_params example_query_suffix
    by (simp add: string_of_nat.simps)
qed


section \<open>No handler throws\<close>

text \<open>
  Claim C8. A \<open>try\<close> block under the \<open>catch\<close> clause of a handler always returns a
  result, whatever the block does; and each handler returns the content of its \<open>try\<close>
  block when that succeeds, and otherwise one text block made of its prefix and the message
  of the error that was thrown. Every handler of \<open>main.ts\<close> is such a \<open>try\<close> block under
  such a clause; five of them are modelled here.
\<close>

theorem tool_handlers_return:
  "(\<exists>c hist'. try_catch m (error_result prefix) hist = (Inr c, hist'))
   \<and> getLandscapes_tool E R hist =
       (case fst (getLandscapes_try E R hist) of
          Inl e \<Rightarrow> (Inr [Text (''Error: '' @ message e)], snd (getLandscapes_try E R hist))
        | Inr c \<Rightarrow> (Inr c, snd (getLandscapes_try E R hist)))
   \<and> getModelObjects_tool E R landscapeId f hist =
       (case fst (getModelObjects_try E R landscapeId f hist) of
          Inl e \<Rightarrow> (Inr [Text (''Error: '' @ message e)],
                    snd (getModelObjects_try E R landscapeId f hist))
        | Inr c \<Rightarrow> (Inr c, snd (getModelObjects_try E R landscapeId f hist)))
   \<and> getModelObject_tool E R landscapeId modelObjectId includeHierarchicalInfo hist =
       (case fst (getModelObject_try E R landscapeId modelObjectId includeHierarchicalInfo
                    hist) of
          Inl e \<Rightarrow> (Inr [Text (''Error: '' @ message e)],
                    snd (getModelObject_try E R landscapeId modelObjectId
                      includeHierarchicalInfo hist))
        | Inr c \<Rightarrow> (Inr c, snd (getModelObject_try E R landscapeId modelObjectId
                      includeHierarchicalInfo hist)))
   \<and> getModelObjectRelationships_tool E R landscapeId modelObjectId hist =
       (case fst (getModelObjectRelationships_try E R landscapeId modelObjectId hist) of
          Inl e \<Rightarrow> (Inr [Text (''Error: '' @ message e)],
                    snd (getModelObjectRelationships_try E R landscapeId modelObjectId hist))
        | Inr c \<Rightarrow> (Inr c,
                    snd (getModelObjectRelationships_try E R landscapeId modelObjectId hist)))
   \<and> addObjectsToDiagram_tool E R landscapeId diagramId ids hist =
       (case fst (addObjectsToDiagram_try E R landscapeId diagramId ids hist) of
          Inl e \<Rightarrow> (Inr [Text (''Error adding objects to diagram: '' @ message e)],
                    snd (addObjectsToDiagram_try E R landscapeId diagramId ids hist))
        | Inr c \<Rightarrow> (Inr c, snd (addObjectsToDiagram_try E R landscapeId diagramId ids hist)))"
proof -
  have "\<exists>c hist'. try_catch m (error_result prefix) hist = (Inr c, hist')"
    by (simp add: try_catch_error_result split: sum.splits)
  then show ?thesis
    by (simp add: getLandscapes_tool_def getModelObjects_tool_def getModelObject_tool_def
        getModelObjectRelationships_tool_def addObjectsToDiagram_tool_def
        try_catch_error_result)
qed

text \<open>
  The outcomes of the \<open>getLandscapes\<close> handler, one by one: a failed fetch, a status
  outside 200 to 299, a body that does not parse, and success.
\<close>

lemma getLandscapes_tool_cases:
  "getLandscapes_tool E R hist =
     (let req = build_request E (''/organizations/'' @ ORGANIZATION_ID E @ ''/landscapes'')
                  no_options
      in case fetch R hist req of
           Inl e \<Rightarrow> (Inr [Text (''Error: '' @ message e)], hist @ [req])
         | Inr resp \<Rightarrow>
             if \<not> ok resp then
               (Inr [Text (''Error: '' @ ''IcePanel API error: ''
                  @ string_of_nat (response.status resp) @ '' '' @ statusText resp @ '' - ''
                  @ bodyText resp)], hist @ [req])
             else
               (case json R resp of
                  Inl e \<Rightarrow> (Inr [Text (''Error: '' @ message e)], hist @ [req])
                | Inr landscapes \<Rightarrow> (Inr [Text (JSON_stringify R landscapes)], hist @ [req])))"
  by (simp add: getLandscapes_tool_def getLandscapes_try_def getLandscapes_def
      try_catch_def error_result_def await_def return_def apiRequest_def Let_def
      split: sum.splits)

theorem tool_handlers_return_witness:
  "getLandscapes_tool example_env example_runtime_404 [] =
     (Inr [Text ''Error: IcePanel API error: 404 Not Found - no such landscape''],
      [build_request example_env ''/organizations/org/landscapes'' no_options])
   \<and> getModelObjectRelationships_tool example_env example_runtime_404 ''L'' ''A'' [] =
     (Inr [Text ''Error: IcePanel API error: 404 Not Found - no such landscape''],
      [build_request example_env ''/landscapes/L/versions/latest/model/objects/A''
         no_options])"
  using tool_handlers_return [where E = example_env and R = example_runtime_404
      and hist = "[]" and landscapeId = "''L''" and modelObjectId = "''A''"]
  by (simp add: getLandscapes_try_def getLandscapes_def getModelObjectRelationships_try_def
      getModelObject_def await_def example_apiRequest_404 example_env_fields)


section \<open>The ids sent by addObjectsToDiagram\<close>

lemma set_first_seen: "set (first_seen xs) = set xs"
  by (induction xs rule: first_seen.induct) auto

lemma distinct_first_seen: "distinct (first_seen xs)"
  by (induction xs rule: first_seen.induct) (auto simp: set_first_seen)

lemma foldl_Set_add:
  "distinct acc \<Longrightarrow>
     foldl Set_add acc xs = acc @ first_seen (filter (\<lambda>x. x \<notin> set acc) xs)"
proof (induction xs arbitrary: acc)
  case Nil
  show ?case by simp
next
  case (Cons x xs)
  show ?case
  proof (cases "x \<in> set acc")
    case True
    then show ?thesis using Cons by (simp add: Set_add_def)
  next
    case False
    have "filter (\<lambda>y. y \<notin> set (acc @ [x])) xs =
        filter (\<lambda>y. y \<noteq> x) (filter (\<lambda>y. y \<notin> set acc) xs)"
      by (simp add: conj_commute)
    moreover have "distinct (acc @ [x])" using Cons.prems False by simp
    ultimately show ?thesis using Cons.IH [of "acc @ [x]"] False by (simp add: Set_add_def)
  qed
qed

lemma new_Set_first_seen: "new_Set xs = first_seen xs"
  using foldl_Set_add [of "[]" xs] by (simp add: new_Set_def)

lemma first_seen_append:
  "first_seen (xs @ ys) = first_seen xs @ first_seen (filter (\<lambda>x. x \<notin> set xs) ys)"
proof -
  have "first_seen (xs @ ys) = foldl Set_add (foldl Set_add [] xs) ys"
    using new_Set_first_seen [of "xs @ ys"] by (simp add: new_Set_def)
  also have "foldl Set_add [] xs = first_seen xs"
    using new_Set_first_seen [of xs] by (simp add: new_Set_def)
  also have "foldl Set_add (first_seen xs) ys =
      first_seen xs @ first_seen (filter (\<lambda>x. x \<notin> set (first_seen xs)) ys)"
    by (rule foldl_Set_add) (rule distinct_first_seen)
  finally show ?thesis by (simp add: set_first_seen)
qed

lemma updatedObjectIds_union:
  "Array_from (new_Set (existing @ new)) = union_first_seen existing new"
  by (simp add: Array_from_def new_Set_first_seen first_seen_append union_first_seen_def)

lemma union_first_seen_properties:
  "distinct (union_first_seen existing new)"
  "set (union_first_seen existing new) = set existing \<union> set new"
  "distinct existing \<Longrightarrow>
     union_first_seen existing new = existing @ first_seen (filter (\<lambda>x. x \<notin> set existing) new)"
proof -
  show "distinct (union_first_seen existing new)"
    by (auto simp: union_first_seen_def distinct_first_seen set_first_seen)
  show "set (union_first_seen existing new) = set existing \<union> set new"
    by (auto simp: union_first_seen_def set_first_seen)
  have "distinct zs \<Longrightarrow> first_seen zs = zs" for zs :: "'a list"
  proof (induction zs)
    case Nil
    show ?case by simp
  next
    case (Cons z zs)
    then have "filter (\<lambda>y. y \<noteq> z) zs = zs" by (auto simp: filter_id_conv)
    with Cons show ?case by simp
  qed
  then show "distinct existing \<Longrightarrow>
     union_first_seen existing new = existing @ first_seen (filter (\<lambda>x. x \<notin> set existing) new)"
    by (simp add: union_first_seen_def)
qed

lemma try_catch_requests:
  "snd (try_catch m (error_result prefix) hist) = snd (m hist)"
  by (simp add: try_catch_error_result split: sum.splits)

lemma updateDiagram_requests:
  "snd (updateDiagram E R landscapeId diagramId data versionId hist) =
     hist @ [build_request E (''/landscapes/'' @ landscapeId @ ''/versions/'' @ versionId
       @ ''/diagrams/'' @ diagramId) \<lparr>http_method = Some ''PATCH'', body = Some data\<rparr>]"
  by (simp add: updateDiagram_def await_requests apiRequest_requests return_def
      split: sum.splits)

lemma getDiagram_requests:
  "snd (getDiagram E R landscapeId diagramId versionId hist) =
     hist @ [build_request E (''/landscapes/'' @ landscapeId @ ''/versions/'' @ versionId
       @ ''/diagrams/'' @ diagramId) no_options]"
  by (simp add: getDiagram_def apiRequest_requests)

lemma addObjectsToDiagram_tool_requests:
  assumes "objectIds_arg \<noteq> []"
    and "fst (getDiagram E R landscapeId diagramId ''latest'' hist) = Inr currentDiagram"
    and "dot_diagram R currentDiagram = Some d"
  shows "snd (addObjectsToDiagram_tool E R landscapeId diagramId objectIds_arg hist) =
     (let path = ''/landscapes/'' @ landscapeId @ ''/versions/latest/diagrams/'' @ diagramId;
          existing = (case Diagram.objectIds d of None \<Rightarrow> [] | Some ids \<Rightarrow> ids);
          data = \<lparr>DiagramData.name = None, DiagramData.description = None,
                  DiagramData.viewType = None, DiagramData.rootObjectId = None,
                  DiagramData.objectIds = Some (union_first_seen existing objectIds_arg)\<rparr>
      in hist @ [build_request E path no_options,
                 build_request E path \<lparr>http_method = Some ''PATCH'', body = Some data\<rparr>]
           @ (case fst (updateDiagram E R landscapeId diagramId data ''latest''
                         (hist @ [build_request E path no_options])) of
                Inl e \<Rightarrow> []
              | Inr updatedDiagram \<Rightarrow> [build_request E path no_options]))"
  using assms
  unfolding addObjectsToDiagram_tool_def addObjectsToDiagram_try_def
  by (simp add: try_catch_requests await_requests await_result updateDiagram_requests
      getDiagram_requests updatedObjectIds_union Let_def return_def throw_def
      split: sum.splits option.splits)

text \<open>
  Claim C9. The list \<open>addObjectsToDiagram\<close> computes from the existing and the new ids
  is their union in first-seen order: the existing ids, then the new ids that are not among
  them, each id once. When the arguments hold at least one id and the diagram is fetched,
  the second request of the handler is the update: its method is \<open>PATCH\<close>, its URL is the
  diagram's, and its body holds that list as \<open>objectIds\<close> and no other field. The list has no
  duplicates and holds exactly the ids of both lists; when the existing list has no
  duplicates it is kept as it is.
\<close>

theorem addObjectsToDiagram_update_ids:
  assumes "objectIds_arg \<noteq> []"
    and "fst (getDiagram E R landscapeId diagramId ''latest'' hist) = Inr currentDiagram"
    and "dot_diagram R currentDiagram = Some d"
    and "existing = (case Diagram.objectIds d of None \<Rightarrow> [] | Some ids \<Rightarrow> ids)"
  shows "Array_from (new_Set (existing @ objectIds_arg)) =
       union_first_seen existing objectIds_arg
     \<and> snd (addObjectsToDiagram_tool E R landscapeId diagramId objectIds_arg hist) =
       (let diagram_url = API_BASE_URL E @ ''/landscapes/'' @ landscapeId
              @ ''/versions/latest/diagrams/'' @ diagramId;
            fixed_headers = [(''Accept'', ''application/json''),
                             (''Content-Type'', ''application/json''),
                             (''Authorization'', ''ApiKey '' @ API_KEY E)];
            data = \<lparr>DiagramData.name = None, DiagramData.description = None,
                    DiagramData.viewType = None, DiagramData.rootObjectId = None,
                    DiagramData.objectIds = Some (union_first_seen existing objectIds_arg)\<rparr>;
            read_request = \<lparr>url = diagram_url, headers = fixed_headers,
                            init = \<lparr>http_method = None, body = None\<rparr>\<rparr>;
            update_request = \<lparr>url = diagram_url, headers = fixed_headers,
                              init = \<lparr>http_method = Some ''PATCH'', body = Some data\<rparr>\<rparr>
        in hist @ [read_request, update_request]
             @ (case fst (updateDiagram E R landscapeId diagramId data ''latest''
                           (hist @ [read_request])) of
                  Inl e \<Rightarrow> []
                | Inr updatedDiagram \<Rightarrow> [read_request]))
     \<and> http_method (init (snd (addObjectsToDiagram_tool E R landscapeId diagramId
           objectIds_arg hist) ! Suc (length hist))) = Some ''PATCH''
     \<and> map_option DiagramData.objectIds
           (body (init (snd (addObjectsToDiagram_tool E R landscapeId diagramId
              objectIds_arg hist) ! Suc (length hist)))) =
         Some (Some (union_first_seen existing objectIds_arg))
     \<and> distinct (union_first_seen existing objectIds_arg)
     \<and> set (union_first_seen existing objectIds_arg) = set existing \<union> set objectIds_arg
     \<and> (distinct existing \<longrightarrow>
          union_first_seen existing objectIds_arg =
            existing @ first_seen (filter (\<lambda>x. x \<notin> set existing) objectIds_arg))"
proof -
  define data where "data =
    \<lparr>DiagramData.name = None, DiagramData.description = None,
     DiagramData.viewType = None, DiagramData.rootObjectId = None,
     DiagramData.objectIds = Some (union_first_seen existing objectIds_arg)\<rparr>"
  define read_request where "read_request =
    \<lparr>url = API_BASE_URL E @ ''/landscapes/'' @ landscapeId
       @ ''/versions/latest/diagrams/'' @ diagramId,
     headers = [(''Accept'', ''application/json''), (''Content-Type'', ''application/json''),
                (''Authorization'', ''ApiKey '' @ API_KEY E)],
     init = \<lparr>http_method = None, body = None\<rparr>\<rparr>"
  define update_request where "update_request =
    \<lparr>url = API_BASE_URL E @ ''/landscapes/'' @ landscapeId
       @ ''/versions/latest/diagrams/'' @ diagramId,
     headers = [(''Accept'', ''application/json''), (''Content-Type'', ''application/json''),
                (''Authorization'', ''ApiKey '' @ API_KEY E)],
     init = \<lparr>http_method = Some ''PATCH'', body = Some data\<rparr>\<rparr>"
  define rest where "rest =
    (case fst (updateDiagram E R landscapeId diagramId data ''latest''
                 (hist @ [read_request])) of
       Inl e \<Rightarrow> []
     | Inr updatedDiagram \<Rightarrow> [read_request])"
  have requests:
    "snd (addObjectsToDiagram_tool E R landscapeId diagramId objectIds_arg hist) =
       hist @ read_request # update_request # rest"
    using addObjectsToDiagram_tool_requests [OF assms(1-3)] assms(4)
    by (simp add: Let_def build_request_def no_options_def data_def read_request_def
        update_request_def rest_def split: sum.splits)
  have second:
    "snd (addObjectsToDiagram_tool E R landscapeId diagramId objectIds_arg hist)
       ! Suc (length hist) = update_request"
    by (simp add: requests nth_append)
  have method_and_body:
    "http_method (init update_request) = Some ''PATCH''"
    "map_option DiagramData.objectIds (body (init update_request)) =
       Some (Some (union_first_seen existing objectIds_arg))"
    by (simp_all add: update_request_def data_def)
  have whole:
    "snd (addObjectsToDiagram_tool E R landscapeId diagramId objectIds_arg hist) =
       (let diagram_url = API_BASE_URL E @ ''/landscapes/'' @ landscapeId
              @ ''/versions/latest/diagrams/'' @ diagramId;
            fixed_headers = [(''Accept'', ''application/json''),
                             (''Content-Type'', ''application/json''),
                             (''Authorization'', ''ApiKey '' @ API_KEY E)];
            data = \<lparr>DiagramData.name = None, DiagramData.description = None,
                    DiagramData.viewType = None, DiagramData.rootObjectId = None,
                    DiagramData.objectIds = Some (union_first_seen existing objectIds_arg)\<rparr>;
            read_request = \<lparr>url = diagram_url, headers = fixed_headers,
                            init = \<lparr>http_method = None, body = None\<rparr>\<rparr>;
            update_request = \<lparr>url = diagram_url, headers = fixed_headers,
                              init = \<lparr>http_method = Some ''PATCH'', body = Some data\<rparr>\<rparr>
        in hist @ [read_request, update_request]
             @ (case fst (updateDiagram E R landscapeId diagramId data ''latest''
                           (hist @ [read_request])) of
                  Inl e \<Rightarrow> []
                | Inr updatedDiagram \<Rightarrow> [read_request]))"
    unfolding requests
    by (simp add: Let_def data_def read_request_def update_request_def rest_def
        split: sum.splits)
  show ?thesis
    using whole method_and_body union_first_seen_properties [of existing objectIds_arg]
      updatedObjectIds_union [of existing objectIds_arg]
    unfolding second
    by blast
qed

lemma example_union: "union_first_seen [''a'', ''b''] [''b'', ''c'', ''c''] = [''a'', ''b'', ''c'']"
  by (simp add: union_first_seen_def)

text \<open>
  The diagram holds \<open>a\<close> and \<open>b\<close>, the arguments are \<open>b\<close>, \<open>c\<close>, \<open>c\<close>: the handler reads the
  diagram, sends a \<open>PATCH\<close> whose body holds \<open>a\<close>, \<open>b\<close>, \<open>c\<close> and nothing else, and reads
  the diagram again.
\<close>

theorem addObjectsToDiagram_update_ids_witness:
  "snd (addObjectsToDiagram_tool example_env example_runtime ''L'' ''D'' [''b'', ''c'', ''c''] []) =
     [\<lparr>url = ''https://api.icepanel.io/v1/landscapes/L/versions/latest/diagrams/D'',
       headers = [(''Accept'', ''application/json''), (''Content-Type'', ''application/json''),
                  (''Authorization'', ''ApiKey key'')],
       init = \<lparr>http_method = None, body = None\<rparr>\<rparr>,
      \<lparr>url = ''https://api.icepanel.io/v1/landscapes/L/versions/latest/diagrams/D'',
       headers = [(''Accept'', ''application/json''), (''Content-Type'', ''application/json''),
                  (''Authorization'', ''ApiKey key'')],
       init = \<lparr>http_method = Some ''PATCH'',
               body = Some \<lparr>DiagramData.name = None, DiagramData.description = None,
                            DiagramData.viewType = None, DiagramData.rootObjectId = None,
                            DiagramData.objectIds = Some [''a'', ''b'', ''c'']\<rparr>\<rparr>\<rparr>,
      \<lparr>url = ''https://api.icepanel.io/v1/landscapes/L/versions/latest/diagrams/D'',
       headers = [(''Accept'', ''application/json''), (''Content-Type'', ''application/json''),
                  (''Authorization'', ''ApiKey key'')],
       init = \<lparr>http_method = None, body = None\<rparr>\<rparr>]"
proof -
  have h1: "[''b'', ''c'', ''c''] \<noteq> ([] :: string list)" by simp
  have h2: "fst (getDiagram example_env example_runtime ''L'' ''D'' ''latest'' []) = Inr ''{}''"
    by (simp add: getDiagram_def example_apiRequest)
  have h3: "dot_diagram example_runtime ''{}'' =
      Some \<lparr>Diagram.id = ''D'', Diagram.name = ''Overview'',
            Diagram.objectIds = Some [''a'', ''b'']\<rparr>"
    by (simp add: example_runtime_def)
  have h4: "[''a'', ''b''] =
      (case Diagram.objectIds \<lparr>Diagram.id = ''D'', Diagram.name = ''Overview'',
            Diagram.objectIds = Some [''a'', ''b'']\<rparr> of None \<Rightarrow> [] | Some ids \<Rightarrow> ids)"
    by simp
  show ?thesis
    using addObjectsToDiagram_update_ids [OF h1 h2 h3 h4]
    by (simp add: example_union updateDiagram_def await_def example_apiRequest return_def
        Let_def example_env_fields build_request_def)
qed


section \<open>The search string in the filter\<close>

lemma join_snoc: "xs \<noteq> [] \<Longrightarrow> join sep (xs @ [x]) = join sep xs @ sep @ x"
  by (induction sep xs rule: join.induct) simp_all

lemma URLSearchParams_toString_snoc:
  "ps \<noteq> [] \<Longrightarrow> URLSearchParams_toString (ps @ [(nm, v)]) =
     URLSearchParams_toString ps @ ''&'' @ urlencode nm @ ''='' @ urlencode v"
  by (simp add: URLSearchParams_toString_def join_snoc)

lemma urlencode_filter_search: "urlencode ''filter[search]'' = ''filter%5Bsearch%5D''"
  by (simp add: urlencode_def urlencode_byte_def unreserved_def hex_digit_def)

lemma query_suffix_snoc:
  "ps \<noteq> [] \<Longrightarrow> query_suffix (ps @ [(''filter[search]'', s)]) =
     ''?'' @ URLSearchParams_toString ps @ ''&filter%5Bsearch%5D='' @ urlencode s"
  by (simp add: query_suffix_def URLSearchParams_toString_snoc urlencode_filter_search)

lemma getModelObjects_params_no_labels:
  "\<forall>e \<in> set filt. fst e \<noteq> ''labels'' \<Longrightarrow> \<exists>ps. getModelObjects_params (Some filt) = Inr ps"
proof (induction filt)
  case Nil
  show ?case by (simp add: getModelObjects_params_def)
next
  case (Cons e filt)
  obtain k v where e: "e = (k, v)" by (cases e)
  with Cons.prems have "k \<noteq> ''labels''" by simp
  then obtain new where new: "getModelObjects_entry [] (k, v) = Inr new"
    using getModelObjects_entry_no_labels by blast
  from Cons obtain ps where "getModelObjects_params (Some filt) = Inr ps" by auto
  then show ?case
    using getModelObjects_params_split [OF new, of "[]" filt]
    by (simp add: e getModelObjects_params_def)
qed

lemma filters_entries_search:
  assumes "filters.search f = Some s"
  shows "\<exists>ps. ps \<noteq> [] \<and>
     getModelObjects_params (Some (filters_entries f)) = Inr (ps @ [(''filter[search]'', s)])"
proof -
  define front where "front = butlast (filters_entries f)"
  define middle where "middle = butlast (tl (tl front))"
  have entries: "filters_entries f = front @ [(''search'', Scalar (Str s))]"
    by (simp add: front_def filters_entries_def optional_string_def assms)
  have front: "front = [(''domainId'', optional_union (filters.domainId f))]
      @ (''external'', Scalar (Bool (filters.external f))) # tl (tl front)"
    by (simp add: front_def filters_entries_def)
  have keys: "\<forall>e \<in> set front. fst e \<noteq> ''labels''"
    by (simp add: front_def filters_entries_def)
  then obtain ps where ps: "getModelObjects_params (Some front) = Inr ps"
    using getModelObjects_params_no_labels by blast
  have "\<exists>before after. getModelObjects_params (Some front) =
      Inr (before @ [(''filter[external]'', toString (Bool (filters.external f)))] @ after)"
  proof -
    have "\<forall>e \<in> set (tl (tl front)). fst e \<noteq> ''labels''"
      by (simp add: front_def filters_entries_def)
    then obtain after where a: "getModelObjects_params (Some (tl (tl front))) = Inr after"
      using getModelObjects_params_no_labels by blast
    obtain before where b:
      "getModelObjects_params (Some [(''domainId'', optional_union (filters.domainId f))]) =
         Inr before"
      using getModelObjects_params_no_labels
        [of "[(''domainId'', optional_union (filters.domainId f))]"] by auto
    show ?thesis
      using getModelObjects_params_split [OF getModelObjects_entry_scalar,
          of "[(''domainId'', optional_union (filters.domainId f))]" "''external''"
            "Bool (filters.external f)" "tl (tl front)"] a b front
      by auto
  qed
  with ps have "ps \<noteq> []" by auto
  moreover have "getModelObjects_params (Some (filters_entries f)) =
      Inr (ps @ [(''filter[search]'', s)])"
    using getModelObjects_params_split [OF getModelObjects_entry_scalar, of front "''search''"
        "Str s" "[]"] ps
    by (simp add: entries getModelObjects_params_def)
  ultimately show ?thesis by blast
qed

text \<open>
  Claim C10. With a non-empty \<open>search\<close> argument, the filter description of the
  \<open>getModelObjects\<close> handler ends with the search string: the encoder emits the pair
  \<open>filter[search] = search\<close> last, after at least one other pair, and the one request of
  the handler carries it at the end of its query string, in its URL-encoded form. The fuzzy
  search is applied to the response afterwards.
\<close>

theorem search_in_filter:
  assumes "filters.search f = Some s" and "s \<noteq> []"
  shows "\<exists>ps. ps \<noteq> []
     \<and> getModelObjects_params (Some (filters_entries f)) = Inr (ps @ [(''filter[search]'', s)])
     \<and> snd (getModelObjects_tool E R landscapeId f hist) =
         hist @ [build_request E (''/landscapes/'' @ landscapeId
           @ ''/versions/latest/model/objects?'' @ URLSearchParams_toString ps
           @ ''&filter%5Bsearch%5D='' @ urlencode s) no_options]
     \<and> (\<forall>result.
          fst (getModelObjects E R landscapeId ''latest'' (Some (filters_entries f)) hist)
            = Inr result \<longrightarrow>
          fst (getModelObjects_tool E R landscapeId f hist) =
            Inr (map (\<lambda>ob. Text (formatModelObjectListItem landscapeId ob))
              (map item (Fuse_search R \<lparr>keys = [''name'', ''description''], threshold = 0.3\<rparr>
                (dot_modelObjects R result) s))))"
proof -
  from filters_entries_search [OF assms(1)] obtain ps where ps: "ps \<noteq> []"
    and enc: "getModelObjects_params (Some (filters_entries f)) =
      Inr (ps @ [(''filter[search]'', s)])"
    by blast
  have req: "snd (getModelObjects_tool E R landscapeId f hist) =
         hist @ [build_request E (''/landscapes/'' @ landscapeId
           @ ''/versions/latest/model/objects?'' @ URLSearchParams_toString ps
           @ ''&filter%5Bsearch%5D='' @ urlencode s) no_options]"
    by (simp add: getModelObjects_tool_def getModelObjects_try_def getModelObjects_def enc
        try_catch_error_result await_requests apiRequest_requests return_def
        query_suffix_snoc [OF ps] split: sum.splits)
  have res: "fst (getModelObjects_tool E R landscapeId f hist) =
            Inr (map (\<lambda>ob. Text (formatModelObjectListItem landscapeId ob))
              (map item (Fuse_search R \<lparr>keys = [''name'', ''description''], threshold = 0.3\<rparr>
                (dot_modelObjects R result) s)))"
    if "fst (getModelObjects E R landscapeId ''latest'' (Some (filters_entries f)) hist)
            = Inr result" for result
    using that assms
    by (simp add: getModelObjects_tool_def getModelObjects_try_def try_catch_error_result
        await_result return_def searchModelObjects_def)
  from ps enc req res show ?thesis by blast
qed

theorem search_in_filter_witness:
  "getModelObjects_params (Some (filters_entries example_filters)) =
     Inr ([(''filter[external]'', ''false''), (''filter[type][]'', ''system''),
           (''filter[type][]'', ''actor'')] @ [(''filter[search]'', ''pay'')])
   \<and> map url (snd (getModelObjects_tool example_env example_runtime ''L'' example_filters [])) =
     [''https://api.icepanel.io/v1/landscapes/L/versions/latest/model/objects?filter%5Bexternal%5D=false&filter%5Btype%5D%5B%5D=system&filter%5Btype%5D%5B%5D=actor&filter%5Bsearch%5D=pay'']"
proof -
  have h1: "filters.search example_filters = Some ''pay''"
    by (simp add: example_filters_def)
  have h2: "''pay'' \<noteq> []" by simp
  from search_in_filter [OF h1 h2, of example_env example_runtime "''L''" "[]"]
  obtain ps where
    "getModelObjects_params (Some (filters_entries example_filters)) =
       Inr (ps @ [(''filter[search]'', ''pay'')])"
    and req: "snd (getModelObjects_tool example_env example_runtime ''L'' example_filters []) =
      [] @ [build_request example_env (''/landscapes/'' @ ''L''
           @ ''/versions/latest/model/objects?'' @ URLSearchParams_toString ps
           @ ''&filter%5Bsearch%5D='' @ urlencode ''pay'') no_options]"
    by blast
  then have ps: "ps = [(''filter[external]'', ''false''), (''filter[type][]'', ''system''),
           (''filter[type][]'', ''actor'')]"
    by (simp add: example_filters_params)
  show ?thesis
    using req
    by (simp add: ps example_filters_params build_request_def example_env_def
        URLSearchParams_toString_def urlencode_def urlencode_byte_def unreserved_def
        hex_digit_def)
qed

end
